theory Spec2Isabelle
  imports Main "HOL-Library.Word"
begin

section \<open>ftsintensity: intensity calibration of an FTS line spectrum\<close>

text \<open>
  A shallow embedding of \<^verbatim>\<open>src/ftsintensity.cpp\<close>. Bytes are \<^typ>\<open>char\<close>, files and C++
  strings are \<^typ>\<open>string\<close>, \<^verbatim>\<open>size_t\<close> is \<^typ>\<open>64 word\<close> (LP64), a 32-bit \<^verbatim>\<open>float\<close> is
  its bit pattern \<^typ>\<open>32 word\<close>. The type \<^verbatim>\<open>double\<close> and the IEEE operations on it are
  parameters (type variable \<open>'d\<close>, record \<open>ieee\<close>), as are the calls into the GNU Scientific
  Library (type variable \<open>'m\<close> for the fitted state, record \<open>gsl\<close>): neither is code of this
  repository. The stream operations are those of the C++11 standard library on a
  little-endian LP64 platform, in the C locale.
\<close>

subsection \<open>C library character classes (C locale)\<close>

definition newline :: char where
  "newline = CHR 0x0A"

definition isspace :: "char \<Rightarrow> bool" where
  "isspace c = (let n = (of_char c :: nat) in n = 32 \<or> (9 \<le> n \<and> n \<le> 13))"

definition isdigit :: "char \<Rightarrow> bool" where
  "isdigit c = (let n = (of_char c :: nat) in 48 \<le> n \<and> n \<le> 57)"

definition isalpha :: "char \<Rightarrow> bool" where
  "isalpha c = (let n = (of_char c :: nat) in (65 \<le> n \<and> n \<le> 90) \<or> (97 \<le> n \<and> n \<le> 122))"

definition isalnum :: "char \<Rightarrow> bool" where
  "isalnum c = (isalpha c \<or> isdigit c)"

subsection \<open>Command line: \<^verbatim>\<open>is_numeric\<close> and \<^verbatim>\<open>getNumCoefficients\<close>\<close>

text \<open>Lines 84--91. The loop over the characters of \<open>a\<close> is the recursion over the list.\<close>

fun is_numeric :: "string \<Rightarrow> bool" where
  "is_numeric [] = True"
| "is_numeric (c # cs) = (if \<not> isalnum c \<or> isalpha c then False else is_numeric cs)"

text \<open>
  \<^verbatim>\<open>iss >> ncoeffs\<close> for a \<^verbatim>\<open>size_t\<close>, on a string that passed \<^verbatim>\<open>is_numeric\<close> (decimal digits
  only). On the empty string the stream is at its end before a character is read, the
  extraction fails and the variable keeps its old content; a value that does not fit is
  stored as the largest \<^verbatim>\<open>size_t\<close>.
\<close>

definition digits_value :: "string \<Rightarrow> nat" where
  "digits_value s = foldl (\<lambda>acc c. 10 * acc + (of_char c - 48)) 0 s"

definition extract_size_t :: "string \<Rightarrow> 64 word \<Rightarrow> 64 word" where
  "extract_size_t s old =
     (if s = [] then old
      else if digits_value s < 2 ^ 64 then of_nat (digits_value s) else - 1)"

definition DEFAULT_NUM_COEFFS :: "64 word" where
  "DEFAULT_NUM_COEFFS = 200"

definition REQUIRED_NUM_ARGS_MODE1 :: nat where
  "REQUIRED_NUM_ARGS_MODE1 = 4"

definition REQUIRED_NUM_ARGS_MODE2 :: nat where
  "REQUIRED_NUM_ARGS_MODE2 = 5"

definition ARG_SPECTRUM :: nat where "ARG_SPECTRUM = 1"
definition ARG_RESPONSE :: nat where "ARG_RESPONSE = 2"
definition ARG_OUTPUT :: nat where "ARG_OUTPUT = 3"
definition ARG_COEFFS :: nat where "ARG_COEFFS = 4"

text \<open>
  Lines 98--119. The result is the returned \<^verbatim>\<open>size_t\<close> and the \<^verbatim>\<open>ERROR\<close> lines printed
  (of the standard output only the \<^verbatim>\<open>ERROR\<close> lines and the syntax line of the help are
  kept, verbatim). \<open>ncoeffs0\<close> is the indeterminate content of the uninitialised local
  \<^verbatim>\<open>ncoeffs\<close>. \<open>argc\<close> is the length of \<open>argv\<close>; \<^verbatim>\<open>argv[ARG_COEFFS]\<close> past the end of \<open>argv\<close> is
  \<open>None\<close> (\<^verbatim>\<open>main\<close> calls the function with four or five arguments only).
\<close>

definition getNumCoefficients :: "string list \<Rightarrow> 64 word \<Rightarrow> (64 word \<times> string list) option" where
  "getNumCoefficients argv ncoeffs0 =
     (if length argv = REQUIRED_NUM_ARGS_MODE1 then Some (DEFAULT_NUM_COEFFS, [])
      else if length argv \<le> ARG_COEFFS then None
      else if is_numeric (argv ! ARG_COEFFS) then
        (let ncoeffs = extract_size_t (argv ! ARG_COEFFS) ncoeffs0
         in if ncoeffs < 4
            then Some (1, [''ERROR: The spline fit must contain at least 4 coefficients.''])
            else Some (ncoeffs, []))
      else Some (1, [''ERROR: Argument 4 must be a number.'']))"

subsection \<open>Floating point and the GNU Scientific Library as parameters\<close>

text \<open>
  \<open>num_get\<close> is \<^verbatim>\<open>std::num_get\<close> for a \<^verbatim>\<open>double\<close>, applied to the characters of a string
  stream from its first non-space character on: from the old content of the variable it
  gives the value stored and the characters left (\<open>None\<close> when the conversion fails and
  \<^verbatim>\<open>failbit\<close> is set). \<open>d_of_int\<close>, \<open>d_to_int\<close> and \<open>d_to_float\<close> are the conversions
  \<^verbatim>\<open>int\<close> to \<^verbatim>\<open>double\<close>, \<^verbatim>\<open>(int)\<close> and \<^verbatim>\<open>(float)\<close>; \<open>f_div\<close> divides two floats.
\<close>

record 'd ieee =
  num_get :: "string \<Rightarrow> 'd \<Rightarrow> 'd \<times> string option"
  d_of_int :: "int \<Rightarrow> 'd"
  d_mul :: "'d \<Rightarrow> 'd \<Rightarrow> 'd"
  d_add :: "'d \<Rightarrow> 'd \<Rightarrow> 'd"
  d_ge :: "'d \<Rightarrow> 'd \<Rightarrow> bool"
  d_le :: "'d \<Rightarrow> 'd \<Rightarrow> bool"
  d_to_int :: "'d \<Rightarrow> int"
  d_to_float :: "'d \<Rightarrow> 32 word"
  f_div :: "32 word \<Rightarrow> 32 word \<Rightarrow> 32 word"

text \<open>
  \<open>gsl_fit ncoeffs nbreak n xVec yVec xmin xmax\<close> stands for lines 250--295: the
  allocations, the uniform knots, the design matrix and the weighted least-squares fit. Its
  result is the state of the GSL objects after the fit, or \<open>None\<close> when GSL's error handler
  aborts the process. \<open>gsl_est m x\<close> stands for lines 307--308: the pair
  \<^verbatim>\<open>(ySpline, yerr)\<close> that \<^verbatim>\<open>gsl_bspline_eval\<close> and \<^verbatim>\<open>gsl_multifit_linear_est\<close> give at \<open>x\<close>.
  The loop calls them only at an \<open>x\<close> that has passed the test of line 306, where they are
  taken to return.
\<close>

record ('d, 'm) gsl =
  gsl_fit :: "64 word \<Rightarrow> 64 word \<Rightarrow> 64 word \<Rightarrow> 'd list \<Rightarrow> 'd list \<Rightarrow> 'd \<Rightarrow> 'd \<Rightarrow> 'm option"
  gsl_est :: "'m \<Rightarrow> 'd \<Rightarrow> 'd \<times> 'd"

subsection \<open>Input streams\<close>

text \<open>
  An \<^verbatim>\<open>ifstream\<close> is its read position and its state flags; the bytes of the file it is
  attached to are passed to each operation (a stream reads the file as it is at the time
  of the read). A file that cannot be opened leaves the stream closed with \<^verbatim>\<open>failbit\<close>
  set.
\<close>

record ifstream =
  is_open :: bool
  gpos :: nat
  eofbit :: bool
  failbit :: bool

definition ifstream_open :: "string option \<Rightarrow> ifstream" where
  "ifstream_open f = \<lparr>is_open = (f \<noteq> None), gpos = 0, eofbit = False, failbit = (f = None)\<rparr>"

text \<open>\<^verbatim>\<open>ios::beg\<close> converts to the stream position 0.\<close>

definition ios_beg :: nat where
  "ios_beg = 0"

text \<open>\<^verbatim>\<open>seekg (pos)\<close>: clears \<^verbatim>\<open>eofbit\<close>, then moves unless the stream has failed.\<close>

definition seekg :: "nat \<Rightarrow> ifstream \<Rightarrow> ifstream" where
  "seekg p s = (if failbit s then s\<lparr>eofbit := False\<rparr> else s\<lparr>eofbit := False, gpos := p\<rparr>)"

text \<open>
  \<^verbatim>\<open>getline (stream, str)\<close>: on a stream that is not good it sets \<^verbatim>\<open>failbit\<close> and leaves
  \<open>str\<close>; otherwise it reads up to the next newline, which it consumes, or to the end of
  the file, where it sets \<^verbatim>\<open>eofbit\<close>, and \<^verbatim>\<open>failbit\<close> too when it has read nothing.
\<close>

definition getline :: "string \<Rightarrow> ifstream \<Rightarrow> string \<Rightarrow> ifstream \<times> string" where
  "getline bytes s str =
     (if eofbit s \<or> failbit s then (s\<lparr>failbit := True\<rparr>, str)
      else
        (let rest = drop (gpos s) bytes;
             l = takeWhile (\<lambda>c. c \<noteq> newline) rest
         in if length l < length rest
            then (s\<lparr>gpos := gpos s + length l + 1\<rparr>, l)
            else (s\<lparr>gpos := gpos s + length l, eofbit := True, failbit := (l = [])\<rparr>, l)))"

text \<open>\<^verbatim>\<open>stream.get (c)\<close>: one byte, or \<^verbatim>\<open>eofbit\<close> and \<^verbatim>\<open>failbit\<close> at the end of the file.\<close>

definition get :: "string \<Rightarrow> ifstream \<Rightarrow> char \<Rightarrow> ifstream \<times> char" where
  "get bytes s c =
     (if eofbit s \<or> failbit s then (s\<lparr>failbit := True\<rparr>, c)
      else if gpos s < length bytes then (s\<lparr>gpos := gpos s + 1\<rparr>, bytes ! gpos s)
      else (s\<lparr>eofbit := True, failbit := True\<rparr>, c))"

text \<open>
  \<^verbatim>\<open>iss.str (line); iss >> word; iss.clear ()\<close> for a \<^verbatim>\<open>std::string\<close>: leading white space
  is skipped; at the end of the string the extraction fails and \<open>word\<close> keeps its content.
\<close>

definition extract_word :: "string \<Rightarrow> string \<Rightarrow> string" where
  "extract_word line old =
     (let r = dropWhile isspace line
      in if r = [] then old else takeWhile (\<lambda>c. \<not> isspace c) r)"

text \<open>
  \<^verbatim>\<open>iss >> v\<close> for a \<^verbatim>\<open>double\<close> on a good string stream holding \<open>text\<close>: the value of \<open>v\<close>
  afterwards and the characters left, \<open>None\<close> when the stream has failed.
\<close>

definition extract_double :: "('d, 'x) ieee_scheme \<Rightarrow> string \<Rightarrow> 'd \<Rightarrow> 'd \<times> string option" where
  "extract_double P text old =
     (let r = dropWhile isspace text
      in if r = [] then (old, None) else num_get P r old)"

text \<open>\<^verbatim>\<open>std::string::substr (pos, n)\<close>; \<open>None\<close> is \<^verbatim>\<open>std::out_of_range\<close>.\<close>

definition substr :: "string \<Rightarrow> nat \<Rightarrow> nat \<Rightarrow> string option" where
  "substr s pos n = (if length s < pos then None else Some (take n (drop pos s)))"

subsection \<open>\<^verbatim>\<open>getXGremlinHeaderField\<close>\<close>

datatype 'a outcome = Returns 'a | Throws_int int | Throws_out_of_range | Diverges

text \<open>
  The do-while loop of lines 134--139, from the state of \<^verbatim>\<open>Header\<close>, \<^verbatim>\<open>LineString\<close> and
  \<^verbatim>\<open>NextField\<close> before an iteration to their state when the loop is left. On a stream
  that has failed without reaching the end of the file no later iteration changes
  anything, so the loop never ends: \<open>None\<close>.
\<close>

function header_scan ::
  "string \<Rightarrow> string \<Rightarrow> ifstream \<Rightarrow> string \<Rightarrow> string \<Rightarrow> (ifstream \<times> string \<times> string) option" where
  "header_scan bytes FieldName Header LineString NextField =
     (case getline bytes Header LineString of
        (Header', LineString') \<Rightarrow>
          (let NextField' = extract_word LineString' NextField
           in if NextField' \<noteq> FieldName \<and> \<not> eofbit Header'
              then (if failbit Header' then None
                    else header_scan bytes FieldName Header' LineString' NextField')
              else Some (Header', LineString', NextField')))"
  by pat_completeness auto
termination
  by (relation "measure (\<lambda>(bytes, FieldName, Header, LineString, NextField). length bytes - gpos Header)")
     (auto simp: getline_def Let_def split: if_splits)

text \<open>
  Lines 127--151. \<open>ReturnValue0\<close> is the indeterminate content of the uninitialised local
  \<^verbatim>\<open>ReturnValue\<close>. The function returns the value and leaves the stream changed.
\<close>

definition getXGremlinHeaderField ::
  "('d, 'x) ieee_scheme \<Rightarrow> string \<Rightarrow> ifstream \<Rightarrow> string \<Rightarrow> 'd \<Rightarrow> ('d \<times> ifstream) outcome" where
  "getXGremlinHeaderField P bytes Header FieldName ReturnValue0 =
     (case header_scan bytes FieldName (seekg ios_beg Header) [] [] of
        None \<Rightarrow> Diverges
      | Some (Header', LineString, NextField) \<Rightarrow>
          if \<not> eofbit Header' then
            (case substr LineString 9 23 of
               None \<Rightarrow> Throws_out_of_range
             | Some t \<Rightarrow> Returns (fst (extract_double P t ReturnValue0), Header'))
          else Throws_int 1)"

definition XMIN_TAG :: string where "XMIN_TAG = ''wstart''"
definition XMAX_TAG :: string where "XMAX_TAG = ''wstop''"
definition DELTAX_TAG :: string where "DELTAX_TAG = ''delw''"
definition NUM_PTS_TAG :: string where "NUM_PTS_TAG = ''npo''"

fun outcome_bind :: "'a outcome \<Rightarrow> ('a \<Rightarrow> 'b outcome) \<Rightarrow> 'b outcome" where
  "outcome_bind (Returns a) f = f a"
| "outcome_bind (Throws_int e) f = Throws_int e"
| "outcome_bind Throws_out_of_range f = Throws_out_of_range"
| "outcome_bind Diverges f = Diverges"

text \<open>
  The four calls of the \<^verbatim>\<open>try\<close> block, lines 203--206, on the same stream; the first call
  that does not return ends the block. The result is \<^verbatim>\<open>wstart\<close>, \<^verbatim>\<open>wstop\<close>, \<^verbatim>\<open>delw\<close>,
  \<^verbatim>\<open>numPts\<close> (as the value of the C++ \<^verbatim>\<open>int\<close>) and the stream.
\<close>

definition read_header ::
  "('d, 'x) ieee_scheme \<Rightarrow> string \<Rightarrow> ifstream \<Rightarrow> 'd \<Rightarrow> ('d \<times> 'd \<times> 'd \<times> int \<times> ifstream) outcome" where
  "read_header P bytes header rv0 =
     outcome_bind (getXGremlinHeaderField P bytes header XMIN_TAG rv0) (\<lambda>(wstart, h1).
     outcome_bind (getXGremlinHeaderField P bytes h1 XMAX_TAG rv0) (\<lambda>(wstop, h2).
     outcome_bind (getXGremlinHeaderField P bytes h2 DELTAX_TAG rv0) (\<lambda>(delw, h3).
     outcome_bind (getXGremlinHeaderField P bytes h3 NUM_PTS_TAG rv0) (\<lambda>(npo, h4).
       Returns (wstart, wstop, delw, d_to_int P npo, h4)))))"

subsection \<open>Loading the response function\<close>

text \<open>\<^verbatim>\<open>iss.str (LineString); iss >> xi >> yi; iss.clear ()\<close>: the new \<^verbatim>\<open>xi\<close> and \<^verbatim>\<open>yi\<close>.\<close>

definition extract_pair :: "('d, 'x) ieee_scheme \<Rightarrow> string \<Rightarrow> 'd \<Rightarrow> 'd \<Rightarrow> 'd \<times> 'd" where
  "extract_pair P line xi yi =
     (case extract_double P line xi of
        (x, None) \<Rightarrow> (x, yi)
      | (x, Some rest) \<Rightarrow> (x, fst (extract_double P rest yi)))"

text \<open>
  The while loop of lines 222--233, from the state before the test of an iteration. On a
  stream that has failed without reaching the end of the file the loop is never left:
  \<open>None\<close>.
\<close>

function load_loop ::
  "('d, 'x) ieee_scheme \<Rightarrow> string \<Rightarrow> ifstream \<Rightarrow> string \<Rightarrow> 64 word \<Rightarrow> 'd \<Rightarrow> 'd \<Rightarrow> 'd list \<Rightarrow> 'd list \<Rightarrow>
     (64 word \<times> 'd list \<times> 'd list) option" where
  "load_loop P bytes calData LineString n xi yi xVec yVec =
     (if \<not> eofbit calData then
        (if failbit calData then None
         else
           (case extract_pair P LineString xi yi of
              (xi', yi') \<Rightarrow>
                (case getline bytes calData LineString of
                   (calData', LineString') \<Rightarrow>
                     load_loop P bytes calData' LineString' (n + 1) xi' yi'
                       (xVec @ [xi']) (yVec @ [yi']))))
      else Some (n, xVec, yVec))"
  by pat_completeness auto
termination
  by (relation "measure (\<lambda>(P, bytes, calData, LineString, n, xi, yi, xVec, yVec).
         length bytes - gpos calData + (if eofbit calData then 0 else 1))")
     (auto simp: getline_def Let_def split: if_splits)

text \<open>Lines 221--233 on the open stream: \<open>n\<close>, \<^verbatim>\<open>xVec\<close> and \<^verbatim>\<open>yVec\<close> after the loop.\<close>

definition load_response ::
  "('d, 'x) ieee_scheme \<Rightarrow> string \<Rightarrow> 'd \<Rightarrow> 'd \<Rightarrow> (64 word \<times> 'd list \<times> 'd list) option" where
  "load_response P bytes xi0 yi0 =
     (case getline bytes (ifstream_open (Some bytes)) [] of
        (calData, LineString) \<Rightarrow> load_loop P bytes calData LineString 0 xi0 yi0 [] [])"

subsection \<open>Binary records\<close>

text \<open>A \<^verbatim>\<open>float\<close> in memory and in the files: four bytes, least significant first.\<close>

definition bytes_of_float :: "32 word \<Rightarrow> string" where
  "bytes_of_float w = map (\<lambda>k. char_of (unat (drop_bit (8 * k) w))) [0, 1, 2, 3]"

definition float_of_bytes :: "string \<Rightarrow> 32 word" where
  "float_of_bytes bs = horner_sum of_char 256 bs"

text \<open>The float \<^verbatim>\<open>0.0\<close>: all bits zero.\<close>

definition float_zero :: "32 word" where
  "float_zero = 0"

text \<open>
  \<^verbatim>\<open>spectrum.read ((char*)&floatyi, sizeof (float))\<close>: a stream that is not good leaves the
  variable; a short read stores the bytes there are over the first bytes of the variable
  and sets \<^verbatim>\<open>eofbit\<close> and \<^verbatim>\<open>failbit\<close>.
\<close>

definition read_float :: "string \<Rightarrow> ifstream \<Rightarrow> 32 word \<Rightarrow> ifstream \<times> 32 word" where
  "read_float bytes s v =
     (if eofbit s \<or> failbit s then (s\<lparr>failbit := True\<rparr>, v)
      else
        (let got = take 4 (drop (gpos s) bytes)
         in if length got = 4 then (s\<lparr>gpos := gpos s + 4\<rparr>, float_of_bytes got)
            else (s\<lparr>gpos := gpos s + length got, eofbit := True, failbit := True\<rparr>,
                  float_of_bytes (got @ drop (length got) (bytes_of_float v)))))"

subsection \<open>The calibration loop\<close>

text \<open>The query wavenumber \<^verbatim>\<open>i * delw + wstart\<close> of lines 306--307.\<close>

definition wavenumber :: "('d, 'x) ieee_scheme \<Rightarrow> 'd \<Rightarrow> 'd \<Rightarrow> int \<Rightarrow> 'd" where
  "wavenumber P delw wstart i = d_add P (d_mul P (d_of_int P i) delw) wstart"

text \<open>The test of line 306.\<close>

definition in_domain :: "('d, 'x) ieee_scheme \<Rightarrow> 'd \<Rightarrow> 'd \<Rightarrow> 'd \<Rightarrow> bool" where
  "in_domain P xmin xmax x = (d_ge P x xmin \<and> d_le P x xmax)"

text \<open>
  The for loop of lines 302--318, from the state before the test \<^verbatim>\<open>i < numPts\<close>: the stream
  \<^verbatim>\<open>spectrum\<close>, \<^verbatim>\<open>floatyi\<close> and the bytes written to \<^verbatim>\<open>calSpectrum\<close> so far. \<open>i\<close> stays
  below \<open>numPts\<close>, so \<^verbatim>\<open>i ++\<close> does not overflow.
\<close>

function calibrate_loop ::
  "('d, 'x) ieee_scheme \<Rightarrow> ('d, 'm, 'y) gsl_scheme \<Rightarrow> 'm \<Rightarrow> string \<Rightarrow> int \<Rightarrow> 'd \<Rightarrow> 'd \<Rightarrow> 'd \<Rightarrow> 'd \<Rightarrow>
     int \<Rightarrow> ifstream \<Rightarrow> 32 word \<Rightarrow> string \<Rightarrow> ifstream \<times> 32 word \<times> string" where
  "calibrate_loop P G m bytes numPts delw wstart xmin xmax i spectrum floatyi out =
     (if i < numPts then
        (case read_float bytes spectrum floatyi of
           (spectrum', floatyi') \<Rightarrow>
             if in_domain P xmin xmax (wavenumber P delw wstart i) then
               (case gsl_est G m (wavenumber P delw wstart i) of
                  (ySpline, yerr) \<Rightarrow>
                    calibrate_loop P G m bytes numPts delw wstart xmin xmax (i + 1) spectrum' floatyi'
                      (out @ bytes_of_float (f_div P floatyi' (d_to_float P ySpline))))
             else
               calibrate_loop P G m bytes numPts delw wstart xmin xmax (i + 1) spectrum' floatyi'
                 (out @ bytes_of_float float_zero))
      else (spectrum, floatyi, out))"
  by pat_completeness auto
termination
  by (relation "measure (\<lambda>(P, G, m, bytes, numPts, delw, wstart, xmin, xmax, i, spectrum, floatyi, out).
         nat (numPts - i))") auto

subsection \<open>Copying the header\<close>

text \<open>
  The while loop of lines 336--339, from the state before its test: the bytes put to
  \<^verbatim>\<open>calHeader\<close>. On a stream that has failed without reaching the end of the file the loop
  is never left: \<open>None\<close>.
\<close>

function copy_loop :: "string \<Rightarrow> ifstream \<Rightarrow> char \<Rightarrow> string \<Rightarrow> string option" where
  "copy_loop bytes header NextByte out =
     (if \<not> eofbit header then
        (if failbit header then None
         else
           (case get bytes header NextByte of
              (header', NextByte') \<Rightarrow> copy_loop bytes header' NextByte' (out @ [NextByte])))
      else Some out)"
  by pat_completeness auto
termination
  by (relation "measure (\<lambda>(bytes, header, NextByte, out).
         length bytes - gpos header + (if eofbit header then 0 else 1))")
     (auto simp: get_def split: if_splits)

subsection \<open>The main program\<close>

text \<open>
  A file system gives the file that each path names and the bytes of each file, \<open>None\<close>
  where no file can be opened for reading. Two paths name one file when they have the
  same \<open>inode\<close>: \<^verbatim>\<open>spec.hdr\<close> and \<^verbatim>\<open>./spec.hdr\<close>, or two links to one file. The program
  opens, reads and writes files through their paths and never changes which file a path
  names.
\<close>

record filesys =
  inode :: "string \<Rightarrow> nat"
  data :: "nat \<Rightarrow> string option"

definition lookup :: "filesys \<Rightarrow> string \<Rightarrow> string option" where
  "lookup fs p = data fs (inode fs p)"

definition store :: "filesys \<Rightarrow> string \<Rightarrow> string \<Rightarrow> filesys" where
  "store fs p bytes = fs\<lparr>data := (data fs)(inode fs p \<mapsto> bytes)\<rparr>"

definition file_bytes :: "filesys \<Rightarrow> string \<Rightarrow> string" where
  "file_bytes fs p = (case lookup fs p of Some b \<Rightarrow> b | None \<Rightarrow> [])"

text \<open>
  A run gives its end, the lines kept of its standard output (the \<^verbatim>\<open>ERROR\<close> lines and the
  syntax line of the help), the file system it leaves, and the calibrated spectrum as the
  loop has written it: the bytes of the file at \<^verbatim>\<open>CalDAT\<close> when \<^verbatim>\<open>calSpectrum\<close> is closed at
  line 320, \<open>None\<close> when the run does not get there. How a run ends: \<^verbatim>\<open>main\<close> returns a
  status; the process is aborted (\<^verbatim>\<open>std::terminate\<close> after an exception that
  \<^verbatim>\<open>throw (int)\<close> does not allow, or GSL's error handler); the behaviour is undefined; or
  the run never ends.
\<close>

datatype status = Exit int | Aborted | Undefined | Hangs

record run =
  status :: status
  stdout :: "string list"
  files :: filesys
  calibrated :: "string option"

text \<open>
  What a run depends on besides its arguments and the files: which paths an \<^verbatim>\<open>ofstream\<close>
  can be opened on, and the indeterminate contents of the uninitialised locals
  \<^verbatim>\<open>ncoeffs\<close>, \<^verbatim>\<open>ReturnValue\<close>, \<^verbatim>\<open>xi\<close>, \<^verbatim>\<open>yi\<close>, \<^verbatim>\<open>floatyi\<close> and \<^verbatim>\<open>NextByte\<close>.
\<close>

record 'd env =
  can_write :: "string \<Rightarrow> bool"
  ncoeffs0 :: "64 word"
  ReturnValue0 :: 'd
  xi0 :: 'd
  yi0 :: 'd
  floatyi0 :: "32 word"
  NextByte0 :: char

text \<open>
  Lines 331--341. Opening \<^verbatim>\<open>calHeader\<close> empties the file that \<^verbatim>\<open>CalHDR\<close> names; whether the
  stream is open is not tested, and on a closed stream every \<^verbatim>\<open>put\<close> is lost. \<^verbatim>\<open>header\<close>
  reads the file that \<^verbatim>\<open>SpectrumHDR\<close> names as it is now: where the two paths name one file
  the first \<^verbatim>\<open>get\<close> finds it empty.
\<close>

definition copy_header :: "('d, 'z) env_scheme \<Rightarrow> filesys \<Rightarrow> string \<Rightarrow> string \<Rightarrow> ifstream \<Rightarrow> run" where
  "copy_header E fs SpectrumHDR CalHDR header =
     (let fs1 = (if can_write E CalHDR then store fs CalHDR [] else fs);
          bytes = file_bytes fs1 SpectrumHDR
      in case get bytes (seekg ios_beg header) (NextByte0 E) of
           (header', NextByte) \<Rightarrow>
             (case copy_loop bytes header' NextByte [] of
                None \<Rightarrow> \<lparr>status = Hangs, stdout = [], files = fs1, calibrated = None\<rparr>
              | Some out \<Rightarrow>
                  \<lparr>status = Exit 0, stdout = [],
                   files = (if can_write E CalHDR then store fs1 CalHDR out else fs1),
                   calibrated = None\<rparr>))"

text \<open>
  Lines 297--341. Opening \<^verbatim>\<open>calSpectrum\<close> empties the file that \<^verbatim>\<open>CalDAT\<close> names;
  \<^verbatim>\<open>spectrum\<close> was opened at line 194 and reads the file that \<^verbatim>\<open>SpectrumDAT\<close> names as it
  is now. Where the two paths name one file the first read finds it empty and fails, and
  a failed stream reads no more: what the loop writes is never read back.
\<close>

definition calibrate ::
  "('d, 'x) ieee_scheme \<Rightarrow> ('d, 'm, 'y) gsl_scheme \<Rightarrow> ('d, 'z) env_scheme \<Rightarrow> filesys \<Rightarrow>
     string \<Rightarrow> string \<Rightarrow> string \<Rightarrow> string \<Rightarrow> ifstream \<Rightarrow> ifstream \<Rightarrow>
     'm \<Rightarrow> int \<Rightarrow> 'd \<Rightarrow> 'd \<Rightarrow> 'd \<Rightarrow> 'd \<Rightarrow> run" where
  "calibrate P G E fs SpectrumDAT SpectrumHDR CalDAT CalHDR spectrum header
       m numPts delw wstart xmin xmax =
     (if is_open spectrum then
        (if can_write E CalDAT then
           (let fs1 = store fs CalDAT []
            in case calibrate_loop P G m (file_bytes fs1 SpectrumDAT) numPts delw wstart xmin xmax
                      0 spectrum (floatyi0 E) [] of
                 (spectrum', floatyi, out) \<Rightarrow>
                   (copy_header E (store fs1 CalDAT out) SpectrumHDR CalHDR header)
                     \<lparr>calibrated := Some out\<rparr>)
         else
           \<lparr>status = Exit 1, stdout = [''ERROR: Unable to write to '' @ CalDAT], files = fs,
            calibrated = None\<rparr>)
      else
        \<lparr>status = Exit 1, stdout = [''ERROR: Unable to open '' @ SpectrumDAT], files = fs,
         calibrated = None\<rparr>)"

text \<open>
  Lines 218--295. \<^verbatim>\<open>xVec[0]\<close> and \<^verbatim>\<open>xVec[xVec.size () - 1]\<close> on an empty vector are
  undefined behaviour.
\<close>

definition fit_response ::
  "('d, 'x) ieee_scheme \<Rightarrow> ('d, 'm, 'y) gsl_scheme \<Rightarrow> ('d, 'z) env_scheme \<Rightarrow> filesys \<Rightarrow>
     string list \<Rightarrow> 64 word \<Rightarrow> string \<Rightarrow> string \<Rightarrow> string \<Rightarrow> string \<Rightarrow> ifstream \<Rightarrow> ifstream \<Rightarrow>
     int \<Rightarrow> 'd \<Rightarrow> 'd \<Rightarrow> run" where
  "fit_response P G E fs argv ncoeffs SpectrumDAT SpectrumHDR CalDAT CalHDR spectrum header
       numPts delw wstart =
     (case lookup fs (argv ! ARG_RESPONSE) of
        None \<Rightarrow>
          \<lparr>status = Exit 1,
           stdout = [''ERROR: Unable to open '' @ argv ! ARG_RESPONSE @ ''.''], files = fs,
           calibrated = None\<rparr>
      | Some bytes \<Rightarrow>
          (case load_response P bytes (xi0 E) (yi0 E) of
             None \<Rightarrow> \<lparr>status = Hangs, stdout = [], files = fs, calibrated = None\<rparr>
           | Some (n, xVec, yVec) \<Rightarrow>
               if xVec = [] then \<lparr>status = Undefined, stdout = [], files = fs, calibrated = None\<rparr>
               else
                 (let xmin = xVec ! 0;
                      xmax = xVec ! (length xVec - 1)
                  in if n \<le> ncoeffs then
                       \<lparr>status = Exit 1,
                        stdout = [''ERROR: There must be more data points in '' @ argv ! ARG_RESPONSE
                                    @ '' than spline fit coefficients.''],
                        files = fs, calibrated = None\<rparr>
                     else
                       (case gsl_fit G ncoeffs (ncoeffs - 2) n xVec yVec xmin xmax of
                          None \<Rightarrow> \<lparr>status = Aborted, stdout = [], files = fs, calibrated = None\<rparr>
                        | Some m \<Rightarrow>
                            calibrate P G E fs SpectrumDAT SpectrumHDR CalDAT CalHDR spectrum header
                              m numPts delw wstart xmin xmax))))"

text \<open>Lines 156--355.\<close>

definition main ::
  "('d, 'x) ieee_scheme \<Rightarrow> ('d, 'm, 'y) gsl_scheme \<Rightarrow> ('d, 'z) env_scheme \<Rightarrow> string list \<Rightarrow> filesys \<Rightarrow> run" where
  "main P G E argv fs =
     (if length argv \<noteq> REQUIRED_NUM_ARGS_MODE1 \<and> length argv \<noteq> REQUIRED_NUM_ARGS_MODE2 then
        \<lparr>status = Exit 1,
         stdout = [''Syntax : ftsintensity <spectrum> <response> <output> [<coeffs>]''],
         files = fs, calibrated = None\<rparr>
      else
        (case getNumCoefficients argv (ncoeffs0 E) of
           None \<Rightarrow> \<lparr>status = Undefined, stdout = [], files = fs, calibrated = None\<rparr>
         | Some (ncoeffs, errors) \<Rightarrow>
             (let SpectrumDAT = argv ! ARG_SPECTRUM @ ''.dat'';
                  SpectrumHDR = argv ! ARG_SPECTRUM @ ''.hdr'';
                  spectrum = ifstream_open (lookup fs SpectrumDAT);
                  CalDAT = argv ! ARG_OUTPUT @ ''.dat'';
                  CalHDR = argv ! ARG_OUTPUT @ ''.hdr'';
                  header = ifstream_open (lookup fs SpectrumHDR);
                  r =
                    (if is_open header then
                       (case read_header P (file_bytes fs SpectrumHDR) header (ReturnValue0 E) of
                          Returns (wstart, wstop, delw, numPts, header') \<Rightarrow>
                            fit_response P G E fs argv ncoeffs SpectrumDAT SpectrumHDR CalDAT CalHDR
                              spectrum header' numPts delw wstart
                        | Throws_int Err \<Rightarrow>
                            \<lparr>status = Exit 1,
                             stdout = [''ERROR: Couldn't load the required XGremlin header data from ''
                                         @ SpectrumHDR],
                             files = fs, calibrated = None\<rparr>
                        | Throws_out_of_range \<Rightarrow>
                            \<lparr>status = Aborted, stdout = [], files = fs, calibrated = None\<rparr>
                        | Diverges \<Rightarrow> \<lparr>status = Hangs, stdout = [], files = fs, calibrated = None\<rparr>)
                     else
                       \<lparr>status = Exit 1, stdout = [''ERROR: Unable to open'' @ SpectrumHDR],
                        files = fs, calibrated = None\<rparr>)
              in r\<lparr>stdout := errors @ stdout r\<rparr>)))"

subsection \<open>Text files as lines\<close>

text \<open>
  The bytes of a text file are some lines, each ended by a newline, and a rest without
  newline after the last of them (empty when the file ends with a newline). The first
  word of a line is its first white-space-delimited token, empty on a blank line.
\<close>

definition terminated :: "string list \<Rightarrow> string" where
  "terminated ls = concat (map (\<lambda>l. l @ [newline]) ls)"

definition first_word :: "string \<Rightarrow> string" where
  "first_word l = takeWhile (\<lambda>c. \<not> isspace c) (dropWhile isspace l)"

text \<open>
  A line holds the pair \<open>p\<close> when \<^verbatim>\<open>iss >> xi >> yi\<close> stores \<open>p\<close> whatever \<^verbatim>\<open>xi\<close> and \<^verbatim>\<open>yi\<close>
  held before. \<open>samples\<close> lists what the same statement stores line after line, each line
  starting from what the line before has left.
\<close>

definition holds_pair :: "('d, 'x) ieee_scheme \<Rightarrow> string \<Rightarrow> 'd \<times> 'd \<Rightarrow> bool" where
  "holds_pair P l p = (\<forall>xi yi. extract_pair P l xi yi = p)"

fun samples :: "('d, 'x) ieee_scheme \<Rightarrow> string list \<Rightarrow> 'd \<Rightarrow> 'd \<Rightarrow> ('d \<times> 'd) list" where
  "samples P [] xi yi = []"
| "samples P (l # ls) xi yi =
     extract_pair P l xi yi
       # samples P ls (fst (extract_pair P l xi yi)) (snd (extract_pair P l xi yi))"

text \<open>Record \<open>k\<close> of a file of 4-byte records.\<close>

definition record_at :: "string \<Rightarrow> nat \<Rightarrow> string" where
  "record_at bytes k = take 4 (drop (4 * k) bytes)"

subsection \<open>An interpretation of the parameters on integers\<close>

text \<open>
  For running the model on concrete input: a \<^verbatim>\<open>double\<close> that holds an integer is that
  integer, the numeric extraction reads an unsigned decimal integer, a \<^verbatim>\<open>float\<close> is
  written as the unsigned 32-bit integer it holds, the fit always succeeds and estimates
  the response 2 everywhere, every output file can be written and the uninitialised
  locals hold zero.
\<close>

definition digits_num_get :: "string \<Rightarrow> int \<Rightarrow> int \<times> string option" where
  "digits_num_get r old =
     (if takeWhile isdigit r = [] then (0, None)
      else (int (digits_value (takeWhile isdigit r)), Some (dropWhile isdigit r)))"

definition int_ieee :: "int ieee" where
  "int_ieee =
     \<lparr>num_get = digits_num_get, d_of_int = (\<lambda>i. i), d_mul = (*), d_add = (+),
      d_ge = (\<lambda>a b. b \<le> a), d_le = (\<lambda>a b. a \<le> b), d_to_int = (\<lambda>i. i),
      d_to_float = word_of_int, f_div = (\<lambda>a b. a div b)\<rparr>"

definition const_gsl :: "(int, unit) gsl" where
  "const_gsl =
     \<lparr>gsl_fit = (\<lambda>ncoeffs nbreak n xVec yVec xmin xmax. Some ()), gsl_est = (\<lambda>m x. (2, 0))\<rparr>"

definition plain_env :: "int env" where
  "plain_env =
     \<lparr>can_write = (\<lambda>p. True), ncoeffs0 = 0, ReturnValue0 = 0, xi0 = 0, yi0 = 0,
      floatyi0 = 0, NextByte0 = CHR 0x00\<rparr>"

subsection \<open>Example runs\<close>

text \<open>
  A header with the four fields, a response file of five samples over 101 to 105 and a
  spectrum of three records holding 6, 8 and 10, in a directory where \<^verbatim>\<open>./spec\<close> names what
  \<^verbatim>\<open>spec\<close> names. Three runs on it: one writing to \<^verbatim>\<open>out\<close>, which leaves the calibrated
  spectrum \<open>example_cal\<close>; one writing to \<^verbatim>\<open>./spec\<close>, onto the spectrum itself, which leaves
  \<open>zero_cal\<close>; and one on a spectrum cut to six bytes, which leaves \<open>short_cal\<close>.
\<close>

definition example_hdr :: string where
  "example_hdr = terminated [''wstart  = 100'', ''wstop   = 102'', ''delw    = 1'', ''npo     = 3'']"

definition example_resp :: string where
  "example_resp = terminated [''101 2'', ''102 2'', ''103 2'', ''104 2'', ''105 2'']"

definition example_dat :: string where
  "example_dat = [CHR 0x06, CHR 0x00, CHR 0x00, CHR 0x00, CHR 0x08, CHR 0x00, CHR 0x00, CHR 0x00,
                  CHR 0x0A, CHR 0x00, CHR 0x00, CHR 0x00]"

definition example_inode :: "string \<Rightarrow> nat" where
  "example_inode p =
     (if p = ''spec.hdr'' \<or> p = ''./spec.hdr'' then 1
      else if p = ''spec.dat'' \<or> p = ''./spec.dat'' then 2
      else if p = ''resp'' then 3
      else if p = ''out.dat'' then 4
      else if p = ''out.hdr'' then 5
      else 0)"

definition example_fs :: filesys where
  "example_fs =
     \<lparr>inode = example_inode,
      data = (\<lambda>i. None)(1 \<mapsto> example_hdr, 2 \<mapsto> example_dat, 3 \<mapsto> example_resp)\<rparr>"

definition example_argv :: "string list" where
  "example_argv = [''ftsintensity'', ''spec'', ''resp'', ''out'', ''4'']"

definition example_cal :: string where
  "example_cal = [CHR 0x00, CHR 0x00, CHR 0x00, CHR 0x00, CHR 0x04, CHR 0x00, CHR 0x00, CHR 0x00,
                  CHR 0x05, CHR 0x00, CHR 0x00, CHR 0x00]"

definition alias_argv :: "string list" where
  "alias_argv = [''ftsintensity'', ''spec'', ''resp'', ''./spec'', ''4'']"

definition zero_cal :: string where
  "zero_cal = [CHR 0x00, CHR 0x00, CHR 0x00, CHR 0x00, CHR 0x00, CHR 0x00, CHR 0x00, CHR 0x00,
               CHR 0x00, CHR 0x00, CHR 0x00, CHR 0x00]"

definition short_dat :: string where
  "short_dat = [CHR 0x06, CHR 0x00, CHR 0x00, CHR 0x00, CHR 0x08, CHR 0x00]"

definition short_fs :: filesys where
  "short_fs = store example_fs ''spec.dat'' short_dat"

definition short_cal :: string where
  "short_cal = [CHR 0x00, CHR 0x00, CHR 0x00, CHR 0x00, CHR 0x04, CHR 0x00, CHR 0x00, CHR 0x00,
                CHR 0x04, CHR 0x00, CHR 0x00, CHR 0x00]"

section \<open>Properties\<close>

declare header_scan.simps [simp del] load_loop.simps [simp del]
  calibrate_loop.simps [simp del] copy_loop.simps [simp del]

lemmas char_defs = isspace_def isdigit_def isalpha_def isalnum_def newline_def

lemmas int_defs = int_ieee_def digits_num_get_def digits_value_def extract_double_def
  extract_pair_def

lemmas arg_defs = REQUIRED_NUM_ARGS_MODE1_def REQUIRED_NUM_ARGS_MODE2_def ARG_SPECTRUM_def
  ARG_RESPONSE_def ARG_OUTPUT_def ARG_COEFFS_def XMIN_TAG_def XMAX_TAG_def DELTAX_TAG_def
  NUM_PTS_TAG_def

subsection \<open>Reading lines\<close>

lemma takeWhile_line:
  "newline \<notin> set l \<Longrightarrow> takeWhile (\<lambda>c. c \<noteq> newline) (l @ newline # post) = l"
  by (induction l) auto

lemma takeWhile_last:
  "newline \<notin> set l \<Longrightarrow> takeWhile (\<lambda>c. c \<noteq> newline) l = l"
  by (induction l) auto

lemma getline_terminated:
  assumes "\<not> eofbit s" "\<not> failbit s" "gpos s = length pre" "newline \<notin> set l"
  shows "getline (pre @ l @ newline # post) s str = (s\<lparr>gpos := length pre + length l + 1\<rparr>, l)"
  using assms by (simp add: getline_def takeWhile_line)

lemma getline_last:
  assumes "\<not> eofbit s" "\<not> failbit s" "gpos s = length pre" "newline \<notin> set l"
  shows "getline (pre @ l) s str =
           (s\<lparr>gpos := length pre + length l, eofbit := True, failbit := (l = [])\<rparr>, l)"
  using assms by (simp add: getline_def takeWhile_last)

lemma terminated_Cons: "terminated (a # ls) = a @ newline # terminated ls"
  by (simp add: terminated_def)

lemma extract_word_neq:
  "nf \<noteq> F \<Longrightarrow> first_word l \<noteq> F \<Longrightarrow> extract_word l nf \<noteq> F"
  by (simp add: extract_word_def first_word_def Let_def)

lemma extract_word_eq:
  "F \<noteq> [] \<Longrightarrow> first_word l = F \<Longrightarrow> extract_word l nf = F"
  by (cases "dropWhile isspace l") (auto simp add: extract_word_def first_word_def Let_def)

subsection \<open>The header scan\<close>

text \<open>
  The scan passes the lines whose first word is not the field name and stops at the first
  line whose first word is; the stream is then just behind that line's newline.
\<close>

lemma header_scan_found:
  assumes "\<not> eofbit s" "\<not> failbit s" "gpos s = length pre"
    and "\<forall>a \<in> set ls. newline \<notin> set a \<and> first_word a \<noteq> F"
    and "newline \<notin> set l" "first_word l = F" "F \<noteq> []" "nf \<noteq> F"
  shows "header_scan (pre @ terminated ls @ l @ newline # post) F s str nf =
           Some (s\<lparr>gpos := length pre + length (terminated ls) + length l + 1\<rparr>, l, F)"
  using assms
proof (induction ls arbitrary: pre s str nf)
  case Nil
  then show ?case
    by (subst header_scan.simps) (simp add: terminated_def getline_terminated extract_word_eq)
next
  case (Cons a ls)
  let ?s = "s\<lparr>gpos := length pre + length a + 1\<rparr>"
  have g: "getline (pre @ a @ newline # (terminated ls @ l @ newline # post)) s str = (?s, a)"
    using Cons.prems by (intro getline_terminated) auto
  have w: "extract_word a nf \<noteq> F"
    using Cons.prems by (intro extract_word_neq) auto
  have ih: "header_scan ((pre @ a @ [newline]) @ terminated ls @ l @ newline # post) F ?s a
              (extract_word a nf) =
            Some (?s\<lparr>gpos := length (pre @ a @ [newline]) + length (terminated ls) + length l + 1\<rparr>,
                  l, F)"
    using Cons.prems w by (intro Cons.IH) auto
  show ?case
    using g w ih Cons.prems(1,2)
    by (subst header_scan.simps) (simp add: terminated_Cons)
qed

text \<open>
  When no newline-terminated line has the field name as its first word, the scan ends on
  the rest of the file with \<^verbatim>\<open>eofbit\<close> set, whatever that rest is.
\<close>

lemma header_scan_eof:
  assumes "\<not> eofbit s" "\<not> failbit s" "gpos s = length pre"
    and "\<forall>a \<in> set ls. newline \<notin> set a \<and> first_word a \<noteq> F"
    and "newline \<notin> set l" "nf \<noteq> F"
  shows "\<exists>H N. header_scan (pre @ terminated ls @ l) F s str nf = Some (H, l, N) \<and> eofbit H
           \<and> (F \<noteq> [] \<and> first_word l = F \<longrightarrow> N = F)"
  using assms
proof (induction ls arbitrary: pre s str nf)
  case Nil
  then show ?case
    by (subst header_scan.simps) (simp add: terminated_def getline_last extract_word_eq)
next
  case (Cons a ls)
  let ?s = "s\<lparr>gpos := length pre + length a + 1\<rparr>"
  have g: "getline (pre @ a @ newline # (terminated ls @ l)) s str = (?s, a)"
    using Cons.prems by (intro getline_terminated) auto
  have w: "extract_word a nf \<noteq> F"
    using Cons.prems by (intro extract_word_neq) auto
  have ih: "\<exists>H N. header_scan ((pre @ a @ [newline]) @ terminated ls @ l) F ?s a (extract_word a nf) =
             Some (H, l, N) \<and> eofbit H \<and> (F \<noteq> [] \<and> first_word l = F \<longrightarrow> N = F)"
    using Cons.prems w by (intro Cons.IH) auto
  show ?case
    using g w ih Cons.prems(1,2)
    by (subst header_scan.simps) (simp add: terminated_Cons)
qed

text \<open>
  C2, as amended. The field value is read from the first newline-terminated line whose
  first word is the (non-empty) field name, when that line has at least 9 characters: the
  numeric extraction is applied to the 23 characters from offset 9 on, that is to columns
  9 to 31 counted from 0, and its result is returned.
\<close>

theorem getXGremlinHeaderField_columns_9_31:
  assumes "\<not> failbit Header"
    and "\<forall>a \<in> set ls. newline \<notin> set a \<and> first_word a \<noteq> FieldName"
    and "newline \<notin> set l" "first_word l = FieldName" "FieldName \<noteq> []" "9 \<le> length l"
  shows "getXGremlinHeaderField P (terminated ls @ l @ newline # post) Header FieldName rv0 =
           Returns (fst (extract_double P (take 23 (drop 9 l)) rv0),
                    Header\<lparr>eofbit := False, gpos := length (terminated ls) + length l + 1\<rparr>)"
proof -
  let ?s = "seekg ios_beg Header"
  have s: "?s = Header\<lparr>eofbit := False, gpos := 0\<rparr>"
    using assms(1) by (simp add: seekg_def ios_beg_def)
  have "header_scan ([] @ terminated ls @ l @ newline # post) FieldName ?s [] [] =
          Some (?s\<lparr>gpos := length ([] :: string) + length (terminated ls) + length l + 1\<rparr>,
                l, FieldName)"
    using assms by (intro header_scan_found) (auto simp: s)
  then show ?thesis
    using assms(6) by (simp add: getXGremlinHeaderField_def substr_def s)
qed

theorem getXGremlinHeaderField_columns_9_31_witness:
  "getXGremlinHeaderField int_ieee
     (terminated [''wstart  =  100''] @ ''npo     =  3'' @ newline # [])
     (ifstream_open (Some [])) ''npo'' 0 =
   Returns (3, \<lparr>is_open = True, gpos = 28, eofbit = False, failbit = False\<rparr>)"
  using getXGremlinHeaderField_columns_9_31 [of "ifstream_open (Some [])" "[''wstart  =  100'']"
      "''npo''" "''npo     =  3''" int_ieee "[]" 0]
  by (simp add: ifstream_open_def first_word_def char_defs terminated_def int_defs)

text \<open>
  C2 as stated fails on a line whose value starts in column 9: the code reads 12 from
  columns 9 to 31 of the line, where columns 10 to 32 hold 2.
\<close>

theorem getXGremlinHeaderField_columns_10_32_counterexample:
  "getXGremlinHeaderField int_ieee (''wstart  =12'' @ [newline])
     (ifstream_open (Some (''wstart  =12'' @ [newline]))) ''wstart'' 0 =
   Returns (12, \<lparr>is_open = True, gpos = 12, eofbit = False, failbit = False\<rparr>) \<and>
   fst (extract_double int_ieee (take 23 (drop 10 ''wstart  =12'')) 0) = 2"
  by (simp add: getXGremlinHeaderField_def header_scan.simps getline_def seekg_def ios_beg_def
      ifstream_open_def extract_word_def substr_def char_defs int_defs)

text \<open>
  C10. The function throws whenever \<^verbatim>\<open>eofbit\<close> is set after the scan loop: on a header
  whose last line has no newline and is the only line with the (non-empty) field name as
  its first word, the loop is left on that line with \<^verbatim>\<open>NextField\<close> equal to the field
  name and with \<^verbatim>\<open>eofbit\<close> set, and the function throws 1, the field-not-found error.
\<close>

theorem getXGremlinHeaderField_unterminated_last_line:
  assumes "\<not> failbit Header"
    and "\<forall>a \<in> set ls. newline \<notin> set a \<and> first_word a \<noteq> FieldName"
    and "newline \<notin> set l" "first_word l = FieldName" "FieldName \<noteq> []"
  shows "(\<exists>H. header_scan (terminated ls @ l) FieldName (seekg ios_beg Header) [] [] =
                Some (H, l, FieldName) \<and> eofbit H)
         \<and> getXGremlinHeaderField P (terminated ls @ l) Header FieldName rv0 = Throws_int 1"
proof -
  let ?s = "seekg ios_beg Header"
  have s: "?s = Header\<lparr>eofbit := False, gpos := 0\<rparr>"
    using assms(1) by (simp add: seekg_def ios_beg_def)
  have "\<exists>H N. header_scan ([] @ terminated ls @ l) FieldName ?s [] [] = Some (H, l, N) \<and> eofbit H
           \<and> (FieldName \<noteq> [] \<and> first_word l = FieldName \<longrightarrow> N = FieldName)"
    using assms by (intro header_scan_eof) (auto simp: s)
  then obtain H where
    "header_scan (terminated ls @ l) FieldName ?s [] [] = Some (H, l, FieldName)" "eofbit H"
    using assms by auto
  then show ?thesis
    by (simp add: getXGremlinHeaderField_def)
qed

theorem getXGremlinHeaderField_unterminated_last_line_witness:
  "getXGremlinHeaderField int_ieee (terminated [''wstart  =  100''] @ ''npo     =  3'')
     (ifstream_open (Some [])) ''npo'' 0 = Throws_int 1"
  using getXGremlinHeaderField_unterminated_last_line [of "ifstream_open (Some [])"
      "[''wstart  =  100'']" "''npo''" "''npo     =  3''" int_ieee 0]
  by (simp add: ifstream_open_def first_word_def char_defs)

subsection \<open>The response loader\<close>

text \<open>
  The loader stores one sample for each newline-terminated line, blank or not, and none
  for the rest of the file behind the last newline.
\<close>

lemma load_loop_lines:
  assumes "\<not> eofbit s" "\<not> failbit s" "gpos s = length pre"
    and "\<forall>l \<in> set ls. newline \<notin> set l" "newline \<notin> set rest"
  shows "load_loop P (pre @ terminated ls @ rest) s a n xi yi xV yV =
           Some (n + 1 + of_nat (length ls),
                 xV @ map fst (samples P (a # ls) xi yi),
                 yV @ map snd (samples P (a # ls) xi yi))"
  using assms
proof (induction ls arbitrary: pre s a n xi yi xV yV)
  case Nil
  obtain x y where p: "extract_pair P a xi yi = (x, y)"
    by (cases "extract_pair P a xi yi")
  have g: "getline (pre @ rest) s a =
             (s\<lparr>gpos := length pre + length rest, eofbit := True, failbit := (rest = [])\<rparr>, rest)"
    using Nil.prems by (intro getline_last) auto
  show ?case
    using Nil.prems(1,2) p g
    by (subst load_loop.simps, subst load_loop.simps) (simp add: terminated_def)
next
  case (Cons b ls)
  obtain x y where p: "extract_pair P a xi yi = (x, y)"
    by (cases "extract_pair P a xi yi")
  let ?s = "s\<lparr>gpos := length pre + length b + 1\<rparr>"
  have g: "getline (pre @ b @ newline # (terminated ls @ rest)) s a = (?s, b)"
    using Cons.prems by (intro getline_terminated) auto
  have ih: "load_loop P ((pre @ b @ [newline]) @ terminated ls @ rest) ?s b (n + 1) x y
              (xV @ [x]) (yV @ [y]) =
            Some (n + 1 + 1 + of_nat (length ls),
                  (xV @ [x]) @ map fst (samples P (b # ls) x y),
                  (yV @ [y]) @ map snd (samples P (b # ls) x y))"
    using Cons.prems by (intro Cons.IH) auto
  show ?case
    using Cons.prems(1,2) p g ih
    by (subst load_loop.simps) (simp add: terminated_Cons add.commute add.left_commute)
qed

lemma load_response_lines:
  assumes "\<forall>l \<in> set ls. newline \<notin> set l" "newline \<notin> set rest"
  shows "load_response P (terminated ls @ rest) xi yi =
           Some (of_nat (length ls), map fst (samples P ls xi yi), map snd (samples P ls xi yi))"
proof (cases ls)
  case Nil
  have "getline ([] @ rest) (ifstream_open (Some rest)) [] =
          ((ifstream_open (Some rest))
             \<lparr>gpos := length ([] :: string) + length rest, eofbit := True, failbit := (rest = [])\<rparr>,
           rest)"
    using assms by (intro getline_last) (auto simp: ifstream_open_def)
  then show ?thesis
    using Nil by (simp add: load_response_def terminated_def load_loop.simps)
next
  case (Cons a as)
  let ?b = "terminated ls @ rest"
  let ?s = "(ifstream_open (Some ?b))\<lparr>gpos := length ([] :: string) + length a + 1\<rparr>"
  have g: "getline ([] @ a @ newline # (terminated as @ rest)) (ifstream_open (Some ?b)) [] = (?s, a)"
    using assms Cons by (intro getline_terminated) (auto simp: ifstream_open_def)
  have "load_loop P ((a @ [newline]) @ terminated as @ rest) ?s a 0 xi yi [] [] =
          Some (0 + 1 + of_nat (length as), [] @ map fst (samples P (a # as) xi yi),
                [] @ map snd (samples P (a # as) xi yi))"
    using assms Cons by (intro load_loop_lines) (auto simp: ifstream_open_def)
  then show ?thesis
    using g Cons by (simp add: load_response_def terminated_Cons)
qed

lemma samples_holds_pair:
  "list_all2 (holds_pair P) ls ps \<Longrightarrow> samples P ls xi yi = ps"
  by (induction ls ps arbitrary: xi yi rule: list_all2_induct) (auto simp: holds_pair_def)

text \<open>
  C4, as amended. For a response file made of newline-terminated lines that each hold a
  pair of numbers, followed by a rest without newline, the loader stores the pairs of the
  terminated lines in file order, \<open>n\<close> is their number, and the rest of the file (a last
  line without newline, trailing white space, or nothing) adds no sample.
\<close>

theorem load_response_pairs:
  assumes "list_all2 (holds_pair P) ls ps"
    and "\<forall>l \<in> set ls. newline \<notin> set l" "newline \<notin> set rest"
  shows "load_response P (terminated ls @ rest) xi yi =
           Some (of_nat (length ls), map fst ps, map snd ps)"
  by (simp add: load_response_lines [OF assms(2,3)] samples_holds_pair [OF assms(1)])

theorem load_response_pairs_witness:
  "load_response int_ieee (terminated [''10 1'', ''20  2''] @ ''30 3'') 0 0 =
   Some (2, [10, 20], [1, 2])"
  using load_response_pairs [of int_ieee "[''10 1'', ''20  2'']" "[(10, 1), (20, 2)]" "''30 3''" 0 0]
  by (simp add: holds_pair_def int_defs char_defs)

text \<open>
  C4 as stated fails on a trailing blank line: the empty line behind the two samples is
  stored as a third sample, a copy of the second.
\<close>

theorem load_response_blank_line_counterexample:
  "load_response int_ieee (terminated [''10 1'', ''20 2'']) 0 0 = Some (2, [10, 20], [1, 2]) \<and>
   load_response int_ieee (terminated [''10 1'', ''20 2'', '''']) 0 0 =
     Some (3, [10, 20, 20], [1, 2, 2])"
  by (simp add: load_response_def load_loop.simps getline_def ifstream_open_def terminated_def
      int_defs char_defs)

subsection \<open>The calibration loop\<close>

lemma length_bytes_of_float: "length (bytes_of_float w) = 4"
  by (simp add: bytes_of_float_def)

lemma bytes_of_float_zero:
  "bytes_of_float float_zero = [CHR 0x00, CHR 0x00, CHR 0x00, CHR 0x00]"
  by (simp add: bytes_of_float_def float_zero_def char_of_def)

lemma calibrate_loop_out:
  "\<exists>w. snd (snd (calibrate_loop P G m bytes numPts delw wstart xmin xmax i s f out)) = out @ w
       \<and> length w = 4 * nat (numPts - i)"
proof (induction "nat (numPts - i)" arbitrary: i s f out)
  case 0
  then show ?case
    by (subst calibrate_loop.simps) simp
next
  case (Suc n)
  then have lt: "i < numPts" and n: "n = nat (numPts - (i + 1))"
    by auto
  obtain s' f' where r: "read_float bytes s f = (s', f')"
    by (cases "read_float bytes s f")
  obtain y e where g: "gsl_est G m (wavenumber P delw wstart i) = (y, e)"
    by (cases "gsl_est G m (wavenumber P delw wstart i)")
  define rec where "rec =
    (if in_domain P xmin xmax (wavenumber P delw wstart i)
     then bytes_of_float (f_div P f' (d_to_float P y)) else bytes_of_float float_zero)"
  have step: "calibrate_loop P G m bytes numPts delw wstart xmin xmax i s f out =
              calibrate_loop P G m bytes numPts delw wstart xmin xmax (i + 1) s' f' (out @ rec)"
    using lt r g by (subst calibrate_loop.simps) (simp add: rec_def)
  from Suc.hyps(1) [OF n, of s' f' "out @ rec"]
  obtain w where w: "snd (snd (calibrate_loop P G m bytes numPts delw wstart xmin xmax (i + 1) s' f' (out @ rec)))
      = (out @ rec) @ w" "length w = 4 * nat (numPts - (i + 1))"
    by blast
  have "length rec = 4"
    by (simp add: rec_def length_bytes_of_float)
  with w lt show ?case
    by (intro exI [of _ "rec @ w"]) (simp add: step nat_diff_distrib)
qed

lemma calibrate_loop_step:
  assumes "i < numPts" "read_float bytes s f = (s', f')"
  shows "calibrate_loop P G m bytes numPts delw wstart xmin xmax i s f out =
         calibrate_loop P G m bytes numPts delw wstart xmin xmax (i + 1) s' f'
           (out @ (if in_domain P xmin xmax (wavenumber P delw wstart i)
                   then bytes_of_float (f_div P f' (d_to_float P (fst (gsl_est G m (wavenumber P delw wstart i)))))
                   else bytes_of_float float_zero))"
  using assms by (subst calibrate_loop.simps) (simp split: prod.splits)

lemma calibrate_loop_first:
  assumes "i < numPts" "read_float bytes s f = (s', f')"
  shows "take 4 (drop (length out)
           (snd (snd (calibrate_loop P G m bytes numPts delw wstart xmin xmax i s f out)))) =
         (if in_domain P xmin xmax (wavenumber P delw wstart i)
          then bytes_of_float (f_div P f' (d_to_float P (fst (gsl_est G m (wavenumber P delw wstart i)))))
          else bytes_of_float float_zero)"
proof -
  let ?rec = "if in_domain P xmin xmax (wavenumber P delw wstart i)
          then bytes_of_float (f_div P f' (d_to_float P (fst (gsl_est G m (wavenumber P delw wstart i)))))
          else bytes_of_float float_zero"
  obtain w where "snd (snd (calibrate_loop P G m bytes numPts delw wstart xmin xmax (i + 1) s' f' (out @ ?rec)))
      = (out @ ?rec) @ w"
    using calibrate_loop_out [of P G m bytes numPts delw wstart xmin xmax "i + 1" s' f' "out @ ?rec"]
    by blast
  moreover have "length ?rec = 4"
    by (simp add: length_bytes_of_float)
  ultimately show ?thesis
    by (simp add: calibrate_loop_step [OF assms])
qed

lemma calibrate_loop_zero:
  assumes "k < nat (numPts - i)"
    and "\<not> in_domain P xmin xmax (wavenumber P delw wstart (i + int k))"
  shows "take 4 (drop (length out + 4 * k)
           (snd (snd (calibrate_loop P G m bytes numPts delw wstart xmin xmax i s f out)))) =
         bytes_of_float float_zero"
  using assms
proof (induction k arbitrary: i s f out)
  case 0
  obtain s' f' where r: "read_float bytes s f = (s', f')"
    by (cases "read_float bytes s f")
  from 0 have "i < numPts" by simp
  from calibrate_loop_first [OF this r, where P = P and G = G and m = m and delw = delw
      and wstart = wstart and xmin = xmin and xmax = xmax and out = out] 0
  show ?case
    by simp
next
  case (Suc k)
  obtain s' f' where r: "read_float bytes s f = (s', f')"
    by (cases "read_float bytes s f")
  from Suc.prems have lt: "i < numPts" by simp
  let ?rec = "if in_domain P xmin xmax (wavenumber P delw wstart i)
          then bytes_of_float (f_div P f' (d_to_float P (fst (gsl_est G m (wavenumber P delw wstart i)))))
          else bytes_of_float float_zero"
  have "take 4 (drop (length (out @ ?rec) + 4 * k)
           (snd (snd (calibrate_loop P G m bytes numPts delw wstart xmin xmax (i + 1) s' f' (out @ ?rec))))) =
         bytes_of_float float_zero"
    using Suc.prems by (intro Suc.IH) (auto simp: algebra_simps)
  moreover have "length ?rec = 4"
    by (simp add: length_bytes_of_float)
  ultimately show ?case
    by (simp add: calibrate_loop_step [OF lt r] add.commute add.left_commute)
qed

lemma read_float_available:
  assumes "\<not> eofbit s" "\<not> failbit s" "gpos s + 4 \<le> length bytes"
  shows "read_float bytes s f = (s\<lparr>gpos := gpos s + 4\<rparr>, float_of_bytes (take 4 (drop (gpos s) bytes)))"
  using assms by (simp add: read_float_def Let_def)

lemma calibrate_loop_ratio:
  assumes "k < nat (numPts - i)"
    and "in_domain P xmin xmax (wavenumber P delw wstart (i + int k))"
    and "\<not> eofbit s" "\<not> failbit s" "gpos s + 4 * (k + 1) \<le> length bytes"
  shows "take 4 (drop (length out + 4 * k)
           (snd (snd (calibrate_loop P G m bytes numPts delw wstart xmin xmax i s f out)))) =
         bytes_of_float (f_div P (float_of_bytes (take 4 (drop (gpos s + 4 * k) bytes)))
           (d_to_float P (fst (gsl_est G m (wavenumber P delw wstart (i + int k))))))"
  using assms
proof (induction k arbitrary: i s f out)
  case 0
  have r: "read_float bytes s f = (s\<lparr>gpos := gpos s + 4\<rparr>, float_of_bytes (take 4 (drop (gpos s) bytes)))"
    using 0 by (intro read_float_available) auto
  from 0 have "i < numPts" by simp
  from calibrate_loop_first [OF this r, where P = P and G = G and m = m and delw = delw
      and wstart = wstart and xmin = xmin and xmax = xmax and out = out] 0
  show ?case
    by simp
next
  case (Suc k)
  let ?s = "s\<lparr>gpos := gpos s + 4\<rparr>" and ?f = "float_of_bytes (take 4 (drop (gpos s) bytes))"
  have r: "read_float bytes s f = (?s, ?f)"
    using Suc.prems by (intro read_float_available) auto
  from Suc.prems have lt: "i < numPts" by simp
  let ?rec = "if in_domain P xmin xmax (wavenumber P delw wstart i)
          then bytes_of_float (f_div P ?f (d_to_float P (fst (gsl_est G m (wavenumber P delw wstart i)))))
          else bytes_of_float float_zero"
  have "take 4 (drop (length (out @ ?rec) + 4 * k)
           (snd (snd (calibrate_loop P G m bytes numPts delw wstart xmin xmax (i + 1) ?s ?f (out @ ?rec))))) =
         bytes_of_float (f_div P (float_of_bytes (take 4 (drop (gpos ?s + 4 * k) bytes)))
           (d_to_float P (fst (gsl_est G m (wavenumber P delw wstart (i + 1 + int k))))))"
    using Suc.prems by (intro Suc.IH) (auto simp: algebra_simps)
  moreover have "length ?rec = 4"
    by (simp add: length_bytes_of_float)
  ultimately show ?case
    by (simp add: calibrate_loop_step [OF lt r] add.commute add.left_commute)
qed

subsection \<open>The header copy and the state of the header stream\<close>

lemma copy_loop_step:
  "\<not> eofbit s \<Longrightarrow> \<not> failbit s \<Longrightarrow>
   copy_loop bytes s c out = (case get bytes s c of (s', c') \<Rightarrow> copy_loop bytes s' c' (out @ [c]))"
  by (subst copy_loop.simps) simp

lemma copy_loop_all:
  assumes "\<not> eofbit s" "\<not> failbit s" "gpos s \<le> length bytes"
  shows "(case get bytes s c of (s', c') \<Rightarrow> copy_loop bytes s' c' out) = Some (out @ drop (gpos s) bytes)"
  using assms
proof (induction "length bytes - gpos s" arbitrary: s c out)
  case 0
  then show ?case
    by (simp add: get_def copy_loop.simps)
next
  case (Suc n)
  let ?s = "s\<lparr>gpos := gpos s + 1\<rparr>"
  have lt: "gpos s < length bytes"
    using Suc.hyps(2) by simp
  have g: "get bytes s c = (?s, bytes ! gpos s)"
    using Suc.prems lt by (simp add: get_def)
  have "(case get bytes s c of (s', c') \<Rightarrow> copy_loop bytes s' c' out) =
          copy_loop bytes ?s (bytes ! gpos s) out"
    by (simp only: g prod.case)
  also have "\<dots> = (case get bytes ?s (bytes ! gpos s) of
                     (s', c') \<Rightarrow> copy_loop bytes s' c' (out @ [bytes ! gpos s]))"
    using Suc.prems by (intro copy_loop_step) auto
  also have "\<dots> = Some ((out @ [bytes ! gpos s]) @ drop (gpos ?s) bytes)"
    using Suc.prems Suc.hyps(2) lt by (intro Suc.hyps(1)) auto
  also have "\<dots> = Some (out @ drop (gpos s) bytes)"
    using lt by (simp add: Cons_nth_drop_Suc)
  finally show ?case .
qed

lemma header_scan_flags:
  "header_scan bytes F s L N = Some (H, L', N') \<Longrightarrow> \<not> failbit s \<Longrightarrow> \<not> eofbit H \<Longrightarrow> \<not> failbit H"
proof (induction bytes F s L N rule: header_scan.induct)
  case (1 bytes FieldName Header LineString NextField)
  obtain H1 L1 where g: "getline bytes Header LineString = (H1, L1)"
    by (cases "getline bytes Header LineString")
  have f1: "\<not> eofbit H1 \<Longrightarrow> \<not> failbit H1"
    using g "1.prems"(2) by (auto simp: getline_def Let_def split: if_splits)
  show ?case
  proof (cases "extract_word L1 NextField \<noteq> FieldName \<and> \<not> eofbit H1")
    case True
    with f1 have nf: "\<not> failbit H1" by simp
    have "header_scan bytes FieldName H1 L1 (extract_word L1 NextField) = Some (H, L', N')"
      using "1.prems"(1) g True nf by (subst (asm) header_scan.simps) simp
    then show ?thesis
      using "1.IH" [OF g [symmetric] refl _ nf] True nf "1.prems"(3) by simp
  next
    case False
    then have "H = H1"
      using "1.prems"(1) g by (subst (asm) header_scan.simps) auto
    then show ?thesis
      using f1 "1.prems"(3) by simp
  qed
qed

lemma getXGremlinHeaderField_good:
  assumes "getXGremlinHeaderField P bytes s F rv = Returns (v, H)" "\<not> failbit s"
  shows "\<not> failbit H \<and> \<not> eofbit H"
proof -
  have "\<not> failbit (seekg ios_beg s)"
    using assms(2) by (simp add: seekg_def)
  with assms(1) show ?thesis
    by (auto simp: getXGremlinHeaderField_def split: option.splits prod.splits if_splits
        dest: header_scan_flags)
qed

lemma outcome_bind_Returns:
  "(outcome_bind x f = Returns r) = (\<exists>a. x = Returns a \<and> f a = Returns r)"
  by (cases x) auto

lemma read_header_good:
  assumes "read_header P bytes s rv = Returns (a, b, c, d, H)" "\<not> failbit s"
  shows "\<not> failbit H \<and> \<not> eofbit H"
  using assms
  by (auto simp: read_header_def outcome_bind_Returns split: prod.splits
      dest!: getXGremlinHeaderField_good)

subsection \<open>Files\<close>

lemma inode_store [simp]: "inode (store fs p b) = inode fs"
  by (simp add: store_def)

lemma lookup_store:
  "lookup (store fs p b) q = (if inode fs q = inode fs p then Some b else lookup fs q)"
  by (simp add: lookup_def store_def)

lemma store_store [simp]: "store (store fs p a) p b = store fs p b"
  by (simp add: store_def)

lemma file_bytes_store:
  "file_bytes (store fs p b) q = (if inode fs q = inode fs p then b else file_bytes fs q)"
  by (simp add: file_bytes_def lookup_store)

subsection \<open>Runs that end with status 0\<close>

lemma copy_header_inode: "inode (files (copy_header E fs SpectrumHDR CalHDR header)) = inode fs"
  by (auto simp: copy_header_def Let_def split: prod.splits option.splits)

lemma copy_header_files:
  "inode fs p \<noteq> inode fs CalHDR \<Longrightarrow>
   lookup (files (copy_header E fs SpectrumHDR CalHDR header)) p = lookup fs p"
  by (auto simp: copy_header_def Let_def lookup_store split: prod.splits option.splits)

lemma copy_header_run:
  assumes "\<not> failbit header"
  shows "copy_header E fs SpectrumHDR CalHDR header =
           \<lparr>status = Exit 0, stdout = [],
            files = (if can_write E CalHDR
                     then store fs CalHDR (file_bytes (store fs CalHDR []) SpectrumHDR) else fs),
            calibrated = None\<rparr>"
proof -
  let ?s = "seekg ios_beg header"
  let ?b = "file_bytes (if can_write E CalHDR then store fs CalHDR [] else fs) SpectrumHDR"
  have s: "\<not> eofbit ?s" "\<not> failbit ?s" "gpos ?s \<le> length ?b" "gpos ?s = 0"
    using assms by (simp_all add: seekg_def ios_beg_def)
  obtain s' c' where g: "get ?b ?s (NextByte0 E) = (s', c')"
    by (cases "get ?b ?s (NextByte0 E)")
  have "(case get ?b ?s (NextByte0 E) of (s', c') \<Rightarrow> copy_loop ?b s' c' []) =
          Some ([] @ drop (gpos ?s) ?b)"
    using s(1,2,3) by (rule copy_loop_all)
  then have "copy_loop ?b s' c' [] = Some ?b"
    by (simp add: g s(4))
  then show ?thesis
    using g by (simp add: copy_header_def Let_def)
qed

lemma calibrate_Exit_0:
  "status (calibrate P G E fs SD SH CD CH spectrum header m numPts delw wstart xmin xmax) = Exit 0 \<Longrightarrow>
   is_open spectrum \<and> can_write E CD"
  by (auto simp: calibrate_def split: if_splits)

lemma fit_response_Exit_0:
  assumes "status (fit_response P G E fs argv ncoeffs SD SH CD CH spectrum header numPts delw wstart) = Exit 0"
  shows "\<exists>rb n xVec yVec m.
           lookup fs (argv ! ARG_RESPONSE) = Some rb \<and>
           load_response P rb (xi0 E) (yi0 E) = Some (n, xVec, yVec) \<and> xVec \<noteq> [] \<and> \<not> n \<le> ncoeffs \<and>
           gsl_fit G ncoeffs (ncoeffs - 2) n xVec yVec (hd xVec) (last xVec) = Some m \<and>
           is_open spectrum \<and> can_write E CD"
  using assms
  by (auto simp: fit_response_def Let_def hd_conv_nth last_conv_nth
      split: option.splits if_splits prod.splits dest: calibrate_Exit_0)

lemma main_Exit_0:
  assumes "status (main P G E argv fs) = Exit 0"
  shows "(length argv = 4 \<or> length argv = 5) \<and>
         (\<exists>ncoeffs errors wstart wstop delw numPts header rb n xVec yVec m.
           getNumCoefficients argv (ncoeffs0 E) = Some (ncoeffs, errors) \<and>
           lookup fs (argv ! ARG_SPECTRUM @ ''.hdr'') \<noteq> None \<and>
           read_header P (file_bytes fs (argv ! ARG_SPECTRUM @ ''.hdr''))
             (ifstream_open (lookup fs (argv ! ARG_SPECTRUM @ ''.hdr''))) (ReturnValue0 E) =
             Returns (wstart, wstop, delw, numPts, header) \<and>
           lookup fs (argv ! ARG_RESPONSE) = Some rb \<and>
           load_response P rb (xi0 E) (yi0 E) = Some (n, xVec, yVec) \<and> xVec \<noteq> [] \<and> \<not> n \<le> ncoeffs \<and>
           gsl_fit G ncoeffs (ncoeffs - 2) n xVec yVec (hd xVec) (last xVec) = Some m \<and>
           lookup fs (argv ! ARG_SPECTRUM @ ''.dat'') \<noteq> None \<and>
           can_write E (argv ! ARG_OUTPUT @ ''.dat''))"
proof -
  have a: "length argv = 4 \<or> length argv = 5"
    using assms by (auto simp: main_def arg_defs split: if_splits)
  obtain ncoeffs errors where n: "getNumCoefficients argv (ncoeffs0 E) = Some (ncoeffs, errors)"
    using assms a by (auto simp: main_def arg_defs split: option.splits)
  let ?SD = "argv ! ARG_SPECTRUM @ ''.dat''" and ?SH = "argv ! ARG_SPECTRUM @ ''.hdr''"
  let ?CD = "argv ! ARG_OUTPUT @ ''.dat''" and ?CH = "argv ! ARG_OUTPUT @ ''.hdr''"
  have o: "lookup fs ?SH \<noteq> None"
    using assms a n by (auto simp: main_def arg_defs Let_def ifstream_open_def split: if_splits)
  obtain wstart wstop delw numPts header where
    h: "read_header P (file_bytes fs ?SH) (ifstream_open (lookup fs ?SH)) (ReturnValue0 E) =
          Returns (wstart, wstop, delw, numPts, header)"
    and f: "status (fit_response P G E fs argv ncoeffs ?SD ?SH ?CD ?CH (ifstream_open (lookup fs ?SD))
              header numPts delw wstart) = Exit 0"
    using assms a n o
    by (auto simp: main_def arg_defs Let_def ifstream_open_def split: if_splits outcome.splits)
  from fit_response_Exit_0 [OF f] obtain rb n xVec yVec m where
    "lookup fs (argv ! ARG_RESPONSE) = Some rb"
    "load_response P rb (xi0 E) (yi0 E) = Some (n, xVec, yVec)" "xVec \<noteq> []" "\<not> n \<le> ncoeffs"
    "gsl_fit G ncoeffs (ncoeffs - 2) n xVec yVec (hd xVec) (last xVec) = Some m"
    "is_open (ifstream_open (lookup fs ?SD))" "can_write E ?CD"
    by blast
  moreover from this(6) have "lookup fs ?SD \<noteq> None"
    by (simp add: ifstream_open_def)
  ultimately show ?thesis
    using a n o h by blast
qed

text \<open>
  Conversely, a run whose stages up to the opening of the calibrated spectrum all pass
  goes through the calibration loop and the header copy and ends with status 0: the runs
  that reach the calibration loop are the runs that end with status 0.
\<close>

lemma main_success:
  assumes "length argv = 4 \<or> length argv = 5"
    and "getNumCoefficients argv (ncoeffs0 E) = Some (ncoeffs, errors)"
    and "lookup fs (argv ! ARG_SPECTRUM @ ''.hdr'') \<noteq> None"
    and "read_header P (file_bytes fs (argv ! ARG_SPECTRUM @ ''.hdr''))
           (ifstream_open (lookup fs (argv ! ARG_SPECTRUM @ ''.hdr''))) (ReturnValue0 E) =
         Returns (wstart, wstop, delw, numPts, header)"
    and "lookup fs (argv ! ARG_RESPONSE) = Some rb"
    and "load_response P rb (xi0 E) (yi0 E) = Some (n, xVec, yVec)" "xVec \<noteq> []" "\<not> n \<le> ncoeffs"
    and "gsl_fit G ncoeffs (ncoeffs - 2) n xVec yVec (hd xVec) (last xVec) = Some m"
    and "lookup fs (argv ! ARG_SPECTRUM @ ''.dat'') \<noteq> None"
    and "can_write E (argv ! ARG_OUTPUT @ ''.dat'')"
    and "out = snd (snd (calibrate_loop P G m
           (file_bytes (store fs (argv ! ARG_OUTPUT @ ''.dat'') []) (argv ! ARG_SPECTRUM @ ''.dat''))
           numPts delw wstart (hd xVec) (last xVec) 0
           (ifstream_open (lookup fs (argv ! ARG_SPECTRUM @ ''.dat''))) (floatyi0 E) []))"
  shows "main P G E argv fs =
           \<lparr>status = Exit 0, stdout = errors,
            files =
              (if can_write E (argv ! ARG_OUTPUT @ ''.hdr'')
               then store (store fs (argv ! ARG_OUTPUT @ ''.dat'') out) (argv ! ARG_OUTPUT @ ''.hdr'')
                      (file_bytes
                        (store (store fs (argv ! ARG_OUTPUT @ ''.dat'') out) (argv ! ARG_OUTPUT @ ''.hdr'') [])
                        (argv ! ARG_SPECTRUM @ ''.hdr''))
               else store fs (argv ! ARG_OUTPUT @ ''.dat'') out),
            calibrated = Some out\<rparr>"
proof -
  let ?SD = "argv ! ARG_SPECTRUM @ ''.dat''" and ?SH = "argv ! ARG_SPECTRUM @ ''.hdr''"
  let ?CD = "argv ! ARG_OUTPUT @ ''.dat''" and ?CH = "argv ! ARG_OUTPUT @ ''.hdr''"
  have a: "\<not> (length argv \<noteq> REQUIRED_NUM_ARGS_MODE1 \<and> length argv \<noteq> REQUIRED_NUM_ARGS_MODE2)"
    using assms(1) by (auto simp: arg_defs)
  have o: "is_open (ifstream_open (lookup fs ?SH))" "is_open (ifstream_open (lookup fs ?SD))"
    "\<not> failbit (ifstream_open (lookup fs ?SH))"
    using assms(3,10) by (simp_all add: ifstream_open_def)
  from read_header_good [OF assms(4) o(3)] have g: "\<not> failbit header"
    by simp
  have x: "xVec ! 0 = hd xVec" "xVec ! (length xVec - 1) = last xVec"
    using assms(7) by (simp_all add: hd_conv_nth last_conv_nth)
  have c: "calibrate P G E fs ?SD ?SH ?CD ?CH (ifstream_open (lookup fs ?SD)) header m numPts delw wstart
             (hd xVec) (last xVec) =
           (copy_header E (store fs ?CD out) ?SH ?CH header)\<lparr>calibrated := Some out\<rparr>"
    using o(2) assms(11) by (simp add: calibrate_def assms(12) split: prod.splits)
  have f: "fit_response P G E fs argv ncoeffs ?SD ?SH ?CD ?CH (ifstream_open (lookup fs ?SD)) header
             numPts delw wstart =
           (copy_header E (store fs ?CD out) ?SH ?CH header)\<lparr>calibrated := Some out\<rparr>"
    using assms(7,8) by (simp only: fit_response_def assms(5,6,9) x c Let_def option.case prod.case if_False)
  show ?thesis
    using a by (simp add: main_def assms(2,4) o(1) f Let_def copy_header_run [OF g])
qed


subsection \<open>The calibrated spectrum\<close>

lemma main_Exit_0_spectrum:
  assumes "status (main P G E argv fs) = Exit 0"
    and "read_header P (file_bytes fs (argv ! ARG_SPECTRUM @ ''.hdr''))
           (ifstream_open (lookup fs (argv ! ARG_SPECTRUM @ ''.hdr''))) (ReturnValue0 E) =
         Returns (wstart, wstop, delw, numPts, header)"
  shows "\<exists>ncoeffs errors n xVec yVec m out.
           getNumCoefficients argv (ncoeffs0 E) = Some (ncoeffs, errors) \<and>
           load_response P (file_bytes fs (argv ! ARG_RESPONSE)) (xi0 E) (yi0 E) = Some (n, xVec, yVec) \<and>
           gsl_fit G ncoeffs (ncoeffs - 2) n xVec yVec (hd xVec) (last xVec) = Some m \<and>
           lookup fs (argv ! ARG_SPECTRUM @ ''.dat'') \<noteq> None \<and>
           out = snd (snd (calibrate_loop P G m
                   (file_bytes (store fs (argv ! ARG_OUTPUT @ ''.dat'') []) (argv ! ARG_SPECTRUM @ ''.dat''))
                   numPts delw wstart (hd xVec) (last xVec) 0
                   (ifstream_open (lookup fs (argv ! ARG_SPECTRUM @ ''.dat''))) (floatyi0 E) [])) \<and>
           calibrated (main P G E argv fs) = Some out \<and>
           (inode fs (argv ! ARG_OUTPUT @ ''.hdr'') \<noteq> inode fs (argv ! ARG_OUTPUT @ ''.dat'') \<longrightarrow>
              lookup (files (main P G E argv fs)) (argv ! ARG_OUTPUT @ ''.dat'') = Some out)"
proof -
  from main_Exit_0 [OF assms(1)]
  obtain ncoeffs errors wstart' wstop' delw' numPts' header' rb n xVec yVec m where
    a: "length argv = 4 \<or> length argv = 5"
    and r: "getNumCoefficients argv (ncoeffs0 E) = Some (ncoeffs, errors)"
      "lookup fs (argv ! ARG_SPECTRUM @ ''.hdr'') \<noteq> None"
      "read_header P (file_bytes fs (argv ! ARG_SPECTRUM @ ''.hdr''))
         (ifstream_open (lookup fs (argv ! ARG_SPECTRUM @ ''.hdr''))) (ReturnValue0 E) =
       Returns (wstart', wstop', delw', numPts', header')"
      "lookup fs (argv ! ARG_RESPONSE) = Some rb"
      "load_response P rb (xi0 E) (yi0 E) = Some (n, xVec, yVec)" "xVec \<noteq> []" "\<not> n \<le> ncoeffs"
      "gsl_fit G ncoeffs (ncoeffs - 2) n xVec yVec (hd xVec) (last xVec) = Some m"
      "lookup fs (argv ! ARG_SPECTRUM @ ''.dat'') \<noteq> None"
      "can_write E (argv ! ARG_OUTPUT @ ''.dat'')"
    by blast
  from r(3) assms(2) have e: "wstart' = wstart" "wstop' = wstop" "delw' = delw" "numPts' = numPts"
    "header' = header"
    by simp_all
  define out where "out = snd (snd (calibrate_loop P G m
                   (file_bytes (store fs (argv ! ARG_OUTPUT @ ''.dat'') []) (argv ! ARG_SPECTRUM @ ''.dat''))
                   numPts delw wstart (hd xVec) (last xVec) 0
                   (ifstream_open (lookup fs (argv ! ARG_SPECTRUM @ ''.dat''))) (floatyi0 E) []))"
  note m = main_success [OF a r(1,2) assms(2) r(4,5,6,7,8,9,10) out_def]
  have c: "calibrated (main P G E argv fs) = Some out"
    by (simp add: m)
  have f: "lookup (files (main P G E argv fs)) (argv ! ARG_OUTPUT @ ''.dat'') = Some out"
    if "inode fs (argv ! ARG_OUTPUT @ ''.hdr'') \<noteq> inode fs (argv ! ARG_OUTPUT @ ''.dat'')"
    using that by (simp add: m lookup_store)
  have l: "load_response P (file_bytes fs (argv ! ARG_RESPONSE)) (xi0 E) (yi0 E) = Some (n, xVec, yVec)"
    using r(4,5) by (simp add: file_bytes_def)
  from r(1) l r(8,9) out_def c f show ?thesis
    by blast
qed

lemma calibrate_loop_record:
  assumes "k < nat (numPts - i)"
    and "\<not> eofbit s" "\<not> failbit s" "gpos s + 4 * (k + 1) \<le> length bytes"
  shows "take 4 (drop (length out + 4 * k)
           (snd (snd (calibrate_loop P G m bytes numPts delw wstart xmin xmax i s f out)))) =
         (if in_domain P xmin xmax (wavenumber P delw wstart (i + int k))
          then bytes_of_float (f_div P (float_of_bytes (take 4 (drop (gpos s + 4 * k) bytes)))
                 (d_to_float P (fst (gsl_est G m (wavenumber P delw wstart (i + int k))))))
          else bytes_of_float float_zero)"
proof (cases "in_domain P xmin xmax (wavenumber P delw wstart (i + int k))")
  case True
  from calibrate_loop_ratio [OF assms(1) True assms(2,3,4)] True show ?thesis
    by simp
next
  case False
  from calibrate_loop_zero [OF assms(1) False] False show ?thesis
    by simp
qed


subsection \<open>The example runs\<close>

lemma example_paths:
  "example_argv ! ARG_SPECTRUM @ ''.dat'' = ''spec.dat''"
  "example_argv ! ARG_SPECTRUM @ ''.hdr'' = ''spec.hdr''"
  "example_argv ! ARG_OUTPUT @ ''.dat'' = ''out.dat''"
  "example_argv ! ARG_OUTPUT @ ''.hdr'' = ''out.hdr''"
  "example_argv ! ARG_RESPONSE = ''resp''"
  by (simp_all add: example_argv_def arg_defs)

lemma alias_paths:
  "alias_argv ! ARG_SPECTRUM @ ''.dat'' = ''spec.dat''"
  "alias_argv ! ARG_SPECTRUM @ ''.hdr'' = ''spec.hdr''"
  "alias_argv ! ARG_OUTPUT @ ''.dat'' = ''./spec.dat''"
  "alias_argv ! ARG_OUTPUT @ ''.hdr'' = ''./spec.hdr''"
  "alias_argv ! ARG_RESPONSE = ''resp''"
  by (simp_all add: alias_argv_def arg_defs)

lemma example_inodes:
  "inode example_fs ''spec.hdr'' = 1" "inode example_fs ''./spec.hdr'' = 1"
  "inode example_fs ''spec.dat'' = 2" "inode example_fs ''./spec.dat'' = 2"
  "inode example_fs ''resp'' = 3" "inode example_fs ''out.dat'' = 4" "inode example_fs ''out.hdr'' = 5"
  by (simp_all add: example_fs_def example_inode_def)

lemma example_files:
  "lookup example_fs ''spec.hdr'' = Some example_hdr"
  "lookup example_fs ''spec.dat'' = Some example_dat"
  "lookup example_fs ''resp'' = Some example_resp"
  by (simp_all add: lookup_def example_fs_def example_inode_def)

lemma short_inode: "inode short_fs = inode example_fs"
  by (simp add: short_fs_def)

lemma short_files:
  "lookup short_fs ''spec.hdr'' = Some example_hdr"
  "lookup short_fs ''spec.dat'' = Some short_dat"
  "lookup short_fs ''resp'' = Some example_resp"
  by (simp_all add: short_fs_def lookup_store example_inodes example_files)

lemma example_read_header:
  "read_header int_ieee example_hdr (ifstream_open (Some example_hdr)) 0 =
     Returns (100, 102, 1, 3, \<lparr>is_open = True, gpos = 52, eofbit = False, failbit = False\<rparr>)"
  by (simp add: read_header_def getXGremlinHeaderField_def header_scan.simps getline_def seekg_def
      ios_beg_def ifstream_open_def extract_word_def substr_def example_hdr_def terminated_def
      arg_defs char_defs int_defs)

lemma example_load_response:
  "load_response int_ieee example_resp (xi0 plain_env) (yi0 plain_env) =
     Some (5, [101, 102, 103, 104, 105], [2, 2, 2, 2, 2])"
  by (simp add: load_response_def load_loop.simps getline_def ifstream_open_def example_resp_def
      terminated_def char_defs int_defs plain_env_def)

lemma example_coefficients:
  "getNumCoefficients example_argv (ncoeffs0 plain_env) = Some (4, [])"
  by (simp add: getNumCoefficients_def example_argv_def extract_size_t_def digits_value_def arg_defs
      char_defs plain_env_def)

lemma alias_coefficients:
  "getNumCoefficients alias_argv (ncoeffs0 plain_env) = Some (4, [])"
  by (simp add: getNumCoefficients_def alias_argv_def extract_size_t_def digits_value_def arg_defs
      char_defs plain_env_def)

lemma example_fit:
  "gsl_fit const_gsl 4 (4 - 2) 5 [101, 102, 103, 104, 105] [2, 2, 2, 2, 2]
     (hd [101, 102, 103, 104, 105]) (last [101, 102, 103, 104, 105]) = Some ()"
  by (simp add: const_gsl_def)

lemma example_header_read:
  "read_header int_ieee (file_bytes example_fs (example_argv ! ARG_SPECTRUM @ ''.hdr''))
     (ifstream_open (lookup example_fs (example_argv ! ARG_SPECTRUM @ ''.hdr''))) (ReturnValue0 plain_env) =
   Returns (100, 102, 1, 3, \<lparr>is_open = True, gpos = 52, eofbit = False, failbit = False\<rparr>)"
  using example_read_header by (simp add: example_paths example_files file_bytes_def plain_env_def)

lemma alias_header_read:
  "read_header int_ieee (file_bytes example_fs (alias_argv ! ARG_SPECTRUM @ ''.hdr''))
     (ifstream_open (lookup example_fs (alias_argv ! ARG_SPECTRUM @ ''.hdr''))) (ReturnValue0 plain_env) =
   Returns (100, 102, 1, 3, \<lparr>is_open = True, gpos = 52, eofbit = False, failbit = False\<rparr>)"
  using example_read_header by (simp add: alias_paths example_files file_bytes_def plain_env_def)

lemma short_header_read:
  "read_header int_ieee (file_bytes short_fs (example_argv ! ARG_SPECTRUM @ ''.hdr''))
     (ifstream_open (lookup short_fs (example_argv ! ARG_SPECTRUM @ ''.hdr''))) (ReturnValue0 plain_env) =
   Returns (100, 102, 1, 3, \<lparr>is_open = True, gpos = 52, eofbit = False, failbit = False\<rparr>)"
  using example_read_header by (simp add: example_paths short_files file_bytes_def plain_env_def)

lemma example_response_loaded:
  "load_response int_ieee (file_bytes example_fs (example_argv ! ARG_RESPONSE))
     (xi0 plain_env) (yi0 plain_env) =
   Some (5, [101, 102, 103, 104, 105], [2, 2, 2, 2, 2])"
  using example_load_response by (simp add: example_paths example_files file_bytes_def)

lemma example_calibrate_loop:
  "example_cal =
   snd (snd (calibrate_loop int_ieee const_gsl ()
     (file_bytes (store example_fs (example_argv ! ARG_OUTPUT @ ''.dat'') [])
        (example_argv ! ARG_SPECTRUM @ ''.dat''))
     3 1 100 (hd [101, 102, 103, 104, 105]) (last [101, 102, 103, 104, 105]) 0
     (ifstream_open (lookup example_fs (example_argv ! ARG_SPECTRUM @ ''.dat''))) (floatyi0 plain_env) []))"
  by (simp add: example_paths example_files example_inodes lookup_store file_bytes_def
      calibrate_loop.simps read_float_def float_of_bytes_def bytes_of_float_def
      in_domain_def wavenumber_def int_ieee_def const_gsl_def float_zero_def example_dat_def
      example_cal_def ifstream_open_def plain_env_def char_of_def bit_Suc_0_iff bit_0)

lemma alias_calibrate_loop:
  "zero_cal =
   snd (snd (calibrate_loop int_ieee const_gsl ()
     (file_bytes (store example_fs (alias_argv ! ARG_OUTPUT @ ''.dat'') [])
        (alias_argv ! ARG_SPECTRUM @ ''.dat''))
     3 1 100 (hd [101, 102, 103, 104, 105]) (last [101, 102, 103, 104, 105]) 0
     (ifstream_open (lookup example_fs (alias_argv ! ARG_SPECTRUM @ ''.dat''))) (floatyi0 plain_env) []))"
  by (simp add: alias_paths example_files example_inodes lookup_store file_bytes_def
      calibrate_loop.simps read_float_def float_of_bytes_def bytes_of_float_def
      in_domain_def wavenumber_def int_ieee_def const_gsl_def float_zero_def
      zero_cal_def ifstream_open_def plain_env_def char_of_def bit_Suc_0_iff bit_0)

lemma short_calibrate_loop:
  "short_cal =
   snd (snd (calibrate_loop int_ieee const_gsl ()
     (file_bytes (store short_fs (example_argv ! ARG_OUTPUT @ ''.dat'') [])
        (example_argv ! ARG_SPECTRUM @ ''.dat''))
     3 1 100 (hd [101, 102, 103, 104, 105]) (last [101, 102, 103, 104, 105]) 0
     (ifstream_open (lookup short_fs (example_argv ! ARG_SPECTRUM @ ''.dat''))) (floatyi0 plain_env) []))"
  by (simp add: example_paths short_files example_inodes lookup_store file_bytes_def short_fs_def
      calibrate_loop.simps read_float_def float_of_bytes_def bytes_of_float_def
      in_domain_def wavenumber_def int_ieee_def const_gsl_def float_zero_def short_dat_def
      short_cal_def ifstream_open_def plain_env_def char_of_def bit_Suc_0_iff bit_0)

lemma example_main:
  "main int_ieee const_gsl plain_env example_argv example_fs =
   \<lparr>status = Exit 0, stdout = [],
    files = store (store example_fs ''out.dat'' example_cal) ''out.hdr'' example_hdr,
    calibrated = Some example_cal\<rparr>"
proof -
  have a: "length example_argv = 4 \<or> length example_argv = 5"
    by (simp add: example_argv_def)
  have o: "lookup example_fs (example_argv ! ARG_SPECTRUM @ ''.hdr'') \<noteq> None"
    "lookup example_fs (example_argv ! ARG_SPECTRUM @ ''.dat'') \<noteq> None"
    by (simp_all add: example_paths example_files)
  have r: "lookup example_fs (example_argv ! ARG_RESPONSE) = Some example_resp"
    by (simp add: example_paths example_files)
  have x: "[101, 102, 103, 104, 105 :: int] \<noteq> []" "\<not> (5 :: 64 word) \<le> 4"
    by simp_all
  have w: "can_write plain_env (example_argv ! ARG_OUTPUT @ ''.dat'')"
    by (simp add: plain_env_def)
  show ?thesis
    by (subst main_success [OF a example_coefficients o(1) example_header_read r
          example_load_response x example_fit o(2) w example_calibrate_loop])
      (simp add: example_paths example_files example_inodes lookup_store file_bytes_def plain_env_def)
qed

lemma alias_main:
  "main int_ieee const_gsl plain_env alias_argv example_fs =
   \<lparr>status = Exit 0, stdout = [],
    files = store (store example_fs ''./spec.dat'' zero_cal) ''./spec.hdr'' [],
    calibrated = Some zero_cal\<rparr>"
proof -
  have a: "length alias_argv = 4 \<or> length alias_argv = 5"
    by (simp add: alias_argv_def)
  have o: "lookup example_fs (alias_argv ! ARG_SPECTRUM @ ''.hdr'') \<noteq> None"
    "lookup example_fs (alias_argv ! ARG_SPECTRUM @ ''.dat'') \<noteq> None"
    by (simp_all add: alias_paths example_files)
  have r: "lookup example_fs (alias_argv ! ARG_RESPONSE) = Some example_resp"
    by (simp add: alias_paths example_files)
  have x: "[101, 102, 103, 104, 105 :: int] \<noteq> []" "\<not> (5 :: 64 word) \<le> 4"
    by simp_all
  have w: "can_write plain_env (alias_argv ! ARG_OUTPUT @ ''.dat'')"
    by (simp add: plain_env_def)
  show ?thesis
    by (subst main_success [OF a alias_coefficients o(1) alias_header_read r
          example_load_response x example_fit o(2) w alias_calibrate_loop])
      (simp add: alias_paths example_files example_inodes lookup_store file_bytes_def plain_env_def)
qed

lemma short_main:
  "main int_ieee const_gsl plain_env example_argv short_fs =
   \<lparr>status = Exit 0, stdout = [],
    files = store (store short_fs ''out.dat'' short_cal) ''out.hdr'' example_hdr,
    calibrated = Some short_cal\<rparr>"
proof -
  have a: "length example_argv = 4 \<or> length example_argv = 5"
    by (simp add: example_argv_def)
  have o: "lookup short_fs (example_argv ! ARG_SPECTRUM @ ''.hdr'') \<noteq> None"
    "lookup short_fs (example_argv ! ARG_SPECTRUM @ ''.dat'') \<noteq> None"
    by (simp_all add: example_paths short_files)
  have r: "lookup short_fs (example_argv ! ARG_RESPONSE) = Some example_resp"
    by (simp add: example_paths short_files)
  have x: "[101, 102, 103, 104, 105 :: int] \<noteq> []" "\<not> (5 :: 64 word) \<le> 4"
    by simp_all
  have w: "can_write plain_env (example_argv ! ARG_OUTPUT @ ''.dat'')"
    by (simp add: plain_env_def)
  show ?thesis
    by (subst main_success [OF a example_coefficients o(1) short_header_read r
          example_load_response x example_fit o(2) w short_calibrate_loop])
      (simp add: example_paths short_files short_inode example_inodes lookup_store file_bytes_def plain_env_def)
qed


subsection \<open>The records of the calibrated spectrum\<close>

lemma example_status:
  "status (main int_ieee const_gsl plain_env example_argv example_fs) = Exit 0"
  by (simp add: example_main)

lemma example_spectrum_length:
  "length (file_bytes example_fs (example_argv ! ARG_SPECTRUM @ ''.dat'')) = 12"
  by (simp add: example_paths example_files file_bytes_def example_dat_def)

lemma example_spectrum_records:
  "record_at (file_bytes example_fs (example_argv ! ARG_SPECTRUM @ ''.dat'')) 1 =
     [CHR 0x08, CHR 0x00, CHR 0x00, CHR 0x00]"
  "record_at (file_bytes example_fs (example_argv ! ARG_SPECTRUM @ ''.dat'')) 2 =
     [CHR 0x0A, CHR 0x00, CHR 0x00, CHR 0x00]"
  by (simp_all add: example_paths example_files file_bytes_def example_dat_def record_at_def)

lemma example_domain:
  "\<not> in_domain int_ieee (hd [101, 102, 103, 104, 105]) (last [101, 102, 103, 104, 105])
       (wavenumber int_ieee 1 100 (int 0))"
  "in_domain int_ieee (hd [101, 102, 103, 104, 105]) (last [101, 102, 103, 104, 105])
     (wavenumber int_ieee 1 100 (int 1))"
  "in_domain int_ieee (hd [101, 102, 103, 104, 105]) (last [101, 102, 103, 104, 105])
     (wavenumber int_ieee 1 100 (int 2))"
  by (simp_all add: in_domain_def wavenumber_def int_ieee_def)

lemma example_quotients:
  "bytes_of_float (f_div int_ieee (float_of_bytes [CHR 0x08, CHR 0x00, CHR 0x00, CHR 0x00])
     (d_to_float int_ieee (fst (gsl_est const_gsl () (wavenumber int_ieee 1 100 (int 1)))))) =
   [CHR 0x04, CHR 0x00, CHR 0x00, CHR 0x00]"
  "bytes_of_float (f_div int_ieee (float_of_bytes [CHR 0x0A, CHR 0x00, CHR 0x00, CHR 0x00])
     (d_to_float int_ieee (fst (gsl_est const_gsl () (wavenumber int_ieee 1 100 (int 2)))))) =
   [CHR 0x05, CHR 0x00, CHR 0x00, CHR 0x00]"
  by (simp_all add: int_ieee_def const_gsl_def float_of_bytes_def bytes_of_float_def char_of_def
      bit_Suc_0_iff bit_0)

text \<open>
  C5. On every run that reaches the calibration phase (in the model: every run that ends
  with status 0) the loop writes exactly \<open>numPts\<close> records of four bytes to the calibrated
  spectrum, \<open>numPts\<close> being the sample count read from the header, whatever the number of
  coefficients (for a negative count, no record). Where the calibrated spectrum is not
  written onto the input spectrum, the records follow the input records in their order:
  for every index \<open>i\<close> below \<open>numPts\<close> whose record the input spectrum holds, record \<open>i\<close>
  of the output is computed from record \<open>i\<close> of the input, as its quotient by the spline
  estimate at wavenumber \<open>i\<close> where that wavenumber passes the test of line 306, and is
  the float \<^verbatim>\<open>0.0\<close> where it does not. These records are the content of the calibrated
  spectrum file at the end of the run, unless the output header is written onto it.
\<close>

theorem calibrated_spectrum_records:
  assumes "status (main P G E argv fs) = Exit 0"
    and "read_header P (file_bytes fs (argv ! ARG_SPECTRUM @ ''.hdr''))
           (ifstream_open (lookup fs (argv ! ARG_SPECTRUM @ ''.hdr''))) (ReturnValue0 E) =
         Returns (wstart, wstop, delw, numPts, header)"
    and "load_response P (file_bytes fs (argv ! ARG_RESPONSE)) (xi0 E) (yi0 E) = Some (n, xVec, yVec)"
    and "getNumCoefficients argv (ncoeffs0 E) = Some (ncoeffs, errors)"
    and "gsl_fit G ncoeffs (ncoeffs - 2) n xVec yVec (hd xVec) (last xVec) = Some m"
  shows "\<exists>out. calibrated (main P G E argv fs) = Some out \<and>
           length out = 4 * nat numPts \<and>
           (inode fs (argv ! ARG_OUTPUT @ ''.dat'') \<noteq> inode fs (argv ! ARG_SPECTRUM @ ''.dat'') \<longrightarrow>
              (\<forall>i < nat numPts.
                 4 * (i + 1) \<le> length (file_bytes fs (argv ! ARG_SPECTRUM @ ''.dat'')) \<longrightarrow>
                 record_at out i =
                   (if in_domain P (hd xVec) (last xVec) (wavenumber P delw wstart (int i))
                    then bytes_of_float
                           (f_div P
                             (float_of_bytes
                               (record_at (file_bytes fs (argv ! ARG_SPECTRUM @ ''.dat'')) i))
                             (d_to_float P (fst (gsl_est G m (wavenumber P delw wstart (int i))))))
                    else bytes_of_float float_zero))) \<and>
           (inode fs (argv ! ARG_OUTPUT @ ''.hdr'') \<noteq> inode fs (argv ! ARG_OUTPUT @ ''.dat'') \<longrightarrow>
              lookup (files (main P G E argv fs)) (argv ! ARG_OUTPUT @ ''.dat'') = Some out)"
proof -
  let ?SD = "argv ! ARG_SPECTRUM @ ''.dat''" and ?CD = "argv ! ARG_OUTPUT @ ''.dat''"
  let ?CH = "argv ! ARG_OUTPUT @ ''.hdr''"
  let ?sb = "file_bytes (store fs ?CD []) ?SD"
  let ?s = "ifstream_open (lookup fs ?SD)"
  let ?out = "snd (snd (calibrate_loop P G m ?sb numPts delw wstart (hd xVec) (last xVec) 0 ?s
                (floatyi0 E) []))"
  from main_Exit_0_spectrum [OF assms(1,2)] assms(3,4,5) have
    c: "calibrated (main P G E argv fs) = Some ?out"
    and f: "inode fs ?CH \<noteq> inode fs ?CD \<longrightarrow> lookup (files (main P G E argv fs)) ?CD = Some ?out"
    and o: "lookup fs ?SD \<noteq> None"
    by auto
  have s: "\<not> eofbit ?s" "\<not> failbit ?s" "gpos ?s = 0"
    using o by (simp_all add: ifstream_open_def)
  have l: "length ?out = 4 * nat numPts"
    using calibrate_loop_out [of P G m ?sb numPts delw wstart "hd xVec" "last xVec" 0 ?s
        "floatyi0 E" "[]"]
    by auto
  have r: "record_at ?out i =
             (if in_domain P (hd xVec) (last xVec) (wavenumber P delw wstart (int i))
              then bytes_of_float
                     (f_div P (float_of_bytes (record_at (file_bytes fs ?SD) i))
                       (d_to_float P (fst (gsl_est G m (wavenumber P delw wstart (int i))))))
              else bytes_of_float float_zero)"
    if d: "inode fs ?CD \<noteq> inode fs ?SD" and i: "i < nat numPts"
      and a: "4 * (i + 1) \<le> length (file_bytes fs ?SD)" for i
  proof -
    from d have b: "?sb = file_bytes fs ?SD"
      by (simp add: file_bytes_store)
    have "take 4 (drop (length ([] :: string) + 4 * i) ?out) =
            (if in_domain P (hd xVec) (last xVec) (wavenumber P delw wstart (0 + int i))
             then bytes_of_float (f_div P (float_of_bytes (take 4 (drop (gpos ?s + 4 * i) ?sb)))
                    (d_to_float P (fst (gsl_est G m (wavenumber P delw wstart (0 + int i))))))
             else bytes_of_float float_zero)"
      using i a s by (intro calibrate_loop_record) (auto simp: b)
    then show ?thesis
      by (simp add: record_at_def s(3) b)
  qed
  from c l r f show ?thesis
    by blast
qed

theorem calibrated_spectrum_records_witness:
  "\<exists>out. calibrated (main int_ieee const_gsl plain_env example_argv example_fs) = Some out \<and>
     length out = 12 \<and>
     record_at out 0 = [CHR 0x00, CHR 0x00, CHR 0x00, CHR 0x00] \<and>
     record_at out 1 = [CHR 0x04, CHR 0x00, CHR 0x00, CHR 0x00] \<and>
     record_at out 2 = [CHR 0x05, CHR 0x00, CHR 0x00, CHR 0x00] \<and>
     lookup (files (main int_ieee const_gsl plain_env example_argv example_fs)) ''out.dat'' = Some out"
proof -
  let ?r = "main int_ieee const_gsl plain_env example_argv example_fs"
  let ?SD = "example_argv ! ARG_SPECTRUM @ ''.dat''"
  let ?xs = "[101, 102, 103, 104, 105] :: int list"
  from calibrated_spectrum_records [OF example_status example_header_read example_response_loaded
      example_coefficients example_fit]
  obtain out where c: "calibrated ?r = Some out" and l: "length out = 4 * nat 3"
    and r: "inode example_fs (example_argv ! ARG_OUTPUT @ ''.dat'') \<noteq> inode example_fs ?SD \<longrightarrow>
              (\<forall>i < nat 3. 4 * (i + 1) \<le> length (file_bytes example_fs ?SD) \<longrightarrow>
                 record_at out i =
                   (if in_domain int_ieee (hd ?xs) (last ?xs) (wavenumber int_ieee 1 100 (int i))
                    then bytes_of_float
                           (f_div int_ieee (float_of_bytes (record_at (file_bytes example_fs ?SD) i))
                             (d_to_float int_ieee
                               (fst (gsl_est const_gsl () (wavenumber int_ieee 1 100 (int i))))))
                    else bytes_of_float float_zero))"
    and f: "inode example_fs (example_argv ! ARG_OUTPUT @ ''.hdr'') \<noteq>
              inode example_fs (example_argv ! ARG_OUTPUT @ ''.dat'') \<longrightarrow>
            lookup (files ?r) (example_argv ! ARG_OUTPUT @ ''.dat'') = Some out"
    by blast
  have d: "inode example_fs (example_argv ! ARG_OUTPUT @ ''.dat'') \<noteq> inode example_fs ?SD"
    "inode example_fs (example_argv ! ARG_OUTPUT @ ''.hdr'') \<noteq>
       inode example_fs (example_argv ! ARG_OUTPUT @ ''.dat'')"
    by (simp_all add: example_paths example_inodes)
  have i: "0 < nat 3" "1 < nat 3" "2 < nat 3"
    "4 * (0 + 1) \<le> length (file_bytes example_fs ?SD)"
    "4 * (1 + 1) \<le> length (file_bytes example_fs ?SD)"
    "4 * (2 + 1) \<le> length (file_bytes example_fs ?SD)"
    by (simp_all add: example_spectrum_length)
  have q: "record_at out i =
             (if in_domain int_ieee (hd ?xs) (last ?xs) (wavenumber int_ieee 1 100 (int i))
              then bytes_of_float
                     (f_div int_ieee (float_of_bytes (record_at (file_bytes example_fs ?SD) i))
                       (d_to_float int_ieee
                         (fst (gsl_est const_gsl () (wavenumber int_ieee 1 100 (int i))))))
              else bytes_of_float float_zero)"
    if "i < nat 3" "4 * (i + 1) \<le> length (file_bytes example_fs ?SD)" for i
    using r d(1) that by blast
  from q [OF i(1,4)] have "record_at out 0 = [CHR 0x00, CHR 0x00, CHR 0x00, CHR 0x00]"
    by (simp only: example_domain if_False bytes_of_float_zero)
  moreover from q [OF i(2,5)] have "record_at out 1 = [CHR 0x04, CHR 0x00, CHR 0x00, CHR 0x00]"
    by (simp only: example_domain if_True example_spectrum_records example_quotients)
  moreover from q [OF i(3,6)] have "record_at out 2 = [CHR 0x05, CHR 0x00, CHR 0x00, CHR 0x00]"
    by (simp only: example_domain if_True example_spectrum_records example_quotients)
  moreover from f d(2) have "lookup (files ?r) ''out.dat'' = Some out"
    by (simp add: example_paths)
  ultimately show ?thesis
    using c l by simp
qed

text \<open>
  The count of records is the count of the header, not the count of the input: on a
  spectrum of six bytes, one record and a half, under a header that announces three
  samples, the run ends with status 0 and the loop has written three records.
\<close>

theorem calibrated_spectrum_short_input_counterexample:
  "status (main int_ieee const_gsl plain_env example_argv short_fs) = Exit 0 \<and>
   lookup short_fs (example_argv ! ARG_SPECTRUM @ ''.dat'') = Some short_dat \<and>
   length short_dat = 6 \<and>
   calibrated (main int_ieee const_gsl plain_env example_argv short_fs) = Some short_cal \<and>
   lookup (files (main int_ieee const_gsl plain_env example_argv short_fs))
     (example_argv ! ARG_OUTPUT @ ''.dat'') = Some short_cal \<and>
   length short_cal = 12"
  by (simp add: short_main example_paths short_files lookup_store short_inode example_inodes
      short_dat_def short_cal_def)


text \<open>
  C3. For every index \<open>i\<close> below the sample count whose wavenumber
  \<^verbatim>\<open>i * delw + wstart\<close> fails the test \<^verbatim>\<open>>= xmin && <= xmax\<close> against the first and the last
  loaded response abscissa, the record that the loop writes at position \<open>i\<close> of the
  calibrated spectrum is the float \<^verbatim>\<open>0.0\<close>: four zero bytes. This holds on every run that
  ends with status 0, whatever the spectrum file holds and whichever file the output
  names; the records written are the content of the calibrated spectrum file at the end
  of the run unless the output header is written onto it.
\<close>

theorem out_of_domain_record_is_zero:
  assumes "status (main P G E argv fs) = Exit 0"
    and "read_header P (file_bytes fs (argv ! ARG_SPECTRUM @ ''.hdr''))
           (ifstream_open (lookup fs (argv ! ARG_SPECTRUM @ ''.hdr''))) (ReturnValue0 E) =
         Returns (wstart, wstop, delw, numPts, header)"
    and "load_response P (file_bytes fs (argv ! ARG_RESPONSE)) (xi0 E) (yi0 E) = Some (n, xVec, yVec)"
    and "i < nat numPts"
    and "\<not> in_domain P (hd xVec) (last xVec) (wavenumber P delw wstart (int i))"
  shows "\<exists>out. calibrated (main P G E argv fs) = Some out \<and>
           record_at out i = bytes_of_float float_zero \<and>
           bytes_of_float float_zero = [CHR 0x00, CHR 0x00, CHR 0x00, CHR 0x00] \<and>
           (inode fs (argv ! ARG_OUTPUT @ ''.hdr'') \<noteq> inode fs (argv ! ARG_OUTPUT @ ''.dat'') \<longrightarrow>
              lookup (files (main P G E argv fs)) (argv ! ARG_OUTPUT @ ''.dat'') = Some out)"
proof -
  let ?SD = "argv ! ARG_SPECTRUM @ ''.dat''" and ?CD = "argv ! ARG_OUTPUT @ ''.dat''"
  let ?CH = "argv ! ARG_OUTPUT @ ''.hdr''"
  from main_Exit_0_spectrum [OF assms(1,2)] assms(3) obtain m where
    c: "calibrated (main P G E argv fs) =
       Some (snd (snd (calibrate_loop P G m (file_bytes (store fs ?CD []) ?SD)
          numPts delw wstart (hd xVec) (last xVec) 0 (ifstream_open (lookup fs ?SD)) (floatyi0 E) [])))"
    and f: "inode fs ?CH \<noteq> inode fs ?CD \<longrightarrow> lookup (files (main P G E argv fs)) ?CD =
       Some (snd (snd (calibrate_loop P G m (file_bytes (store fs ?CD []) ?SD)
          numPts delw wstart (hd xVec) (last xVec) 0 (ifstream_open (lookup fs ?SD)) (floatyi0 E) [])))"
    by auto
  have "take 4 (drop (length ([] :: string) + 4 * i) (snd (snd (calibrate_loop P G m
          (file_bytes (store fs ?CD []) ?SD)
          numPts delw wstart (hd xVec) (last xVec) 0
          (ifstream_open (lookup fs ?SD)) (floatyi0 E) [])))) =
        bytes_of_float float_zero"
    using assms(4,5) by (intro calibrate_loop_zero) auto
  then show ?thesis
    using bytes_of_float_zero f by (simp add: c record_at_def)
qed

theorem out_of_domain_record_is_zero_witness:
  "\<exists>out. calibrated (main int_ieee const_gsl plain_env example_argv example_fs) = Some out \<and>
     record_at out 0 = [CHR 0x00, CHR 0x00, CHR 0x00, CHR 0x00] \<and>
     lookup (files (main int_ieee const_gsl plain_env example_argv example_fs)) ''out.dat'' = Some out"
proof -
  have i: "0 < nat 3"
    by simp
  have d: "inode example_fs (example_argv ! ARG_OUTPUT @ ''.hdr'') \<noteq>
             inode example_fs (example_argv ! ARG_OUTPUT @ ''.dat'')"
    by (simp add: example_paths example_inodes)
  from out_of_domain_record_is_zero [OF example_status example_header_read example_response_loaded
      i example_domain(1)] d
  show ?thesis
    unfolding example_paths by auto
qed

text \<open>
  C6. For every index \<open>i\<close> below the sample count whose wavenumber passes the test of
  line 306, on a run that ends with status 0, whose calibrated spectrum is not written
  onto the input spectrum and whose input spectrum holds record \<open>i\<close>: the record that the
  loop writes at position \<open>i\<close> is the float quotient of record \<open>i\<close> of the input spectrum
  and the spline estimate \<^verbatim>\<open>ySpline\<close> at that wavenumber cast to \<^verbatim>\<open>float\<close>. Of the pair that
  the estimation returns only the first component occurs: the standard error \<^verbatim>\<open>yerr\<close> does
  not enter the output.
\<close>

theorem in_domain_record_is_ratio:
  assumes "status (main P G E argv fs) = Exit 0"
    and "read_header P (file_bytes fs (argv ! ARG_SPECTRUM @ ''.hdr''))
           (ifstream_open (lookup fs (argv ! ARG_SPECTRUM @ ''.hdr''))) (ReturnValue0 E) =
         Returns (wstart, wstop, delw, numPts, header)"
    and "load_response P (file_bytes fs (argv ! ARG_RESPONSE)) (xi0 E) (yi0 E) = Some (n, xVec, yVec)"
    and "getNumCoefficients argv (ncoeffs0 E) = Some (ncoeffs, errors)"
    and "gsl_fit G ncoeffs (ncoeffs - 2) n xVec yVec (hd xVec) (last xVec) = Some m"
    and "i < nat numPts"
    and "in_domain P (hd xVec) (last xVec) (wavenumber P delw wstart (int i))"
    and "inode fs (argv ! ARG_OUTPUT @ ''.dat'') \<noteq> inode fs (argv ! ARG_SPECTRUM @ ''.dat'')"
    and "4 * (i + 1) \<le> length (file_bytes fs (argv ! ARG_SPECTRUM @ ''.dat''))"
  shows "\<exists>out. calibrated (main P G E argv fs) = Some out \<and>
           record_at out i =
             bytes_of_float
               (f_div P
                 (float_of_bytes (record_at (file_bytes fs (argv ! ARG_SPECTRUM @ ''.dat'')) i))
                 (d_to_float P (fst (gsl_est G m (wavenumber P delw wstart (int i)))))) \<and>
           (inode fs (argv ! ARG_OUTPUT @ ''.hdr'') \<noteq> inode fs (argv ! ARG_OUTPUT @ ''.dat'') \<longrightarrow>
              lookup (files (main P G E argv fs)) (argv ! ARG_OUTPUT @ ''.dat'') = Some out)"
proof -
  let ?SD = "argv ! ARG_SPECTRUM @ ''.dat''" and ?CD = "argv ! ARG_OUTPUT @ ''.dat''"
  let ?CH = "argv ! ARG_OUTPUT @ ''.hdr''"
  let ?sb = "file_bytes (store fs ?CD []) ?SD"
  let ?s = "ifstream_open (lookup fs ?SD)"
  let ?out = "snd (snd (calibrate_loop P G m ?sb numPts delw wstart (hd xVec) (last xVec) 0 ?s
                (floatyi0 E) []))"
  from main_Exit_0_spectrum [OF assms(1,2)] assms(3,4,5) have
    c: "calibrated (main P G E argv fs) = Some ?out"
    and f: "inode fs ?CH \<noteq> inode fs ?CD \<longrightarrow> lookup (files (main P G E argv fs)) ?CD = Some ?out"
    and o: "lookup fs ?SD \<noteq> None"
    by auto
  have s: "\<not> eofbit ?s" "\<not> failbit ?s" "gpos ?s = 0"
    using o by (simp_all add: ifstream_open_def)
  from assms(8) have b: "?sb = file_bytes fs ?SD"
    by (simp add: file_bytes_store)
  have "take 4 (drop (length ([] :: string) + 4 * i) ?out) =
        bytes_of_float (f_div P (float_of_bytes (take 4 (drop (gpos ?s + 4 * i) ?sb)))
           (d_to_float P (fst (gsl_est G m (wavenumber P delw wstart (0 + int i))))))"
    using assms(6,7,9) s by (intro calibrate_loop_ratio) (auto simp: b)
  then have "record_at ?out i =
        bytes_of_float (f_div P (float_of_bytes (record_at (file_bytes fs ?SD) i))
           (d_to_float P (fst (gsl_est G m (wavenumber P delw wstart (int i))))))"
    by (simp add: record_at_def s(3) b)
  with c f show ?thesis
    by blast
qed

theorem in_domain_record_is_ratio_witness:
  "\<exists>out. calibrated (main int_ieee const_gsl plain_env example_argv example_fs) = Some out \<and>
     record_at out 1 = [CHR 0x04, CHR 0x00, CHR 0x00, CHR 0x00] \<and>
     lookup (files (main int_ieee const_gsl plain_env example_argv example_fs)) ''out.dat'' = Some out"
proof -
  have i: "1 < nat 3"
    by simp
  have d: "inode example_fs (example_argv ! ARG_OUTPUT @ ''.dat'') \<noteq>
             inode example_fs (example_argv ! ARG_SPECTRUM @ ''.dat'')"
    "inode example_fs (example_argv ! ARG_OUTPUT @ ''.hdr'') \<noteq>
       inode example_fs (example_argv ! ARG_OUTPUT @ ''.dat'')"
    by (simp_all add: example_paths example_inodes)
  have a: "4 * (1 + 1) \<le> length (file_bytes example_fs (example_argv ! ARG_SPECTRUM @ ''.dat''))"
    by (simp add: example_spectrum_length)
  from in_domain_record_is_ratio [OF example_status example_header_read example_response_loaded
      example_coefficients example_fit i example_domain(2) d(1) a] d(2)
  obtain out where
    c: "calibrated (main int_ieee const_gsl plain_env example_argv example_fs) = Some out"
    and r: "record_at out 1 =
              bytes_of_float
                (f_div int_ieee
                  (float_of_bytes
                    (record_at (file_bytes example_fs (example_argv ! ARG_SPECTRUM @ ''.dat'')) 1))
                  (d_to_float int_ieee (fst (gsl_est const_gsl () (wavenumber int_ieee 1 100 (int 1))))))"
    and f: "lookup (files (main int_ieee const_gsl plain_env example_argv example_fs))
              (example_argv ! ARG_OUTPUT @ ''.dat'') = Some out"
    by blast
  from r have "record_at out 1 = [CHR 0x04, CHR 0x00, CHR 0x00, CHR 0x00]"
    by (simp only: example_spectrum_records example_quotients)
  with c f show ?thesis
    by (simp add: example_paths)
qed

text \<open>
  Where the calibrated spectrum is written onto the input spectrum, as with the output
  name \<^verbatim>\<open>./spec\<close> for the spectrum \<^verbatim>\<open>spec\<close>, opening the output empties the input before the
  loop reads it: the run ends with status 0, the wavenumber of index 1 is in the domain,
  record 1 of the input held 8 and the estimate is 2, yet record 1 of the output is 0
  and not 4.
\<close>

theorem in_domain_record_onto_input_counterexample:
  "status (main int_ieee const_gsl plain_env alias_argv example_fs) = Exit 0 \<and>
   in_domain int_ieee (hd [101, 102, 103, 104, 105]) (last [101, 102, 103, 104, 105])
     (wavenumber int_ieee 1 100 (int 1)) \<and>
   record_at (file_bytes example_fs (alias_argv ! ARG_SPECTRUM @ ''.dat'')) 1 =
     [CHR 0x08, CHR 0x00, CHR 0x00, CHR 0x00] \<and>
   bytes_of_float (f_div int_ieee (float_of_bytes [CHR 0x08, CHR 0x00, CHR 0x00, CHR 0x00])
     (d_to_float int_ieee (fst (gsl_est const_gsl () (wavenumber int_ieee 1 100 (int 1)))))) =
     [CHR 0x04, CHR 0x00, CHR 0x00, CHR 0x00] \<and>
   calibrated (main int_ieee const_gsl plain_env alias_argv example_fs) = Some zero_cal \<and>
   lookup (files (main int_ieee const_gsl plain_env alias_argv example_fs))
     (alias_argv ! ARG_OUTPUT @ ''.dat'') = Some zero_cal \<and>
   record_at zero_cal 1 = [CHR 0x00, CHR 0x00, CHR 0x00, CHR 0x00]"
proof -
  have "record_at (file_bytes example_fs (alias_argv ! ARG_SPECTRUM @ ''.dat'')) 1 =
          [CHR 0x08, CHR 0x00, CHR 0x00, CHR 0x00]"
    by (simp add: alias_paths example_files file_bytes_def example_dat_def record_at_def)
  moreover have "record_at zero_cal 1 = [CHR 0x00, CHR 0x00, CHR 0x00, CHR 0x00]"
    by (simp add: zero_cal_def record_at_def)
  moreover have "lookup (files (main int_ieee const_gsl plain_env alias_argv example_fs))
     (alias_argv ! ARG_OUTPUT @ ''.dat'') = Some zero_cal"
    by (simp add: alias_main alias_paths lookup_store example_inodes)
  ultimately show ?thesis
    using example_domain(2) example_quotients(1) by (simp add: alias_main)
qed


subsection \<open>Runs on bad input\<close>

lemma getNumCoefficients_Some:
  "length argv = 4 \<or> length argv = 5 \<Longrightarrow> \<exists>ncoeffs errors. getNumCoefficients argv n0 = Some (ncoeffs, errors)"
  by (auto simp: getNumCoefficients_def arg_defs Let_def)

lemma load_response_no_newline:
  "newline \<notin> set rb \<Longrightarrow> load_response P rb xi yi = Some (0, [], [])"
  using load_response_lines [of "[]" rb P xi yi] by (simp add: terminated_def)

lemma main_zero_samples:
  assumes "length argv = 4 \<or> length argv = 5"
    and "lookup fs (argv ! ARG_SPECTRUM @ ''.hdr'') \<noteq> None"
    and "read_header P (file_bytes fs (argv ! ARG_SPECTRUM @ ''.hdr''))
           (ifstream_open (lookup fs (argv ! ARG_SPECTRUM @ ''.hdr''))) (ReturnValue0 E) =
         Returns (wstart, wstop, delw, numPts, header)"
    and "lookup fs (argv ! ARG_RESPONSE) = Some rb" "newline \<notin> set rb"
  shows "status (main P G E argv fs) = Undefined"
proof -
  obtain ncoeffs errors where n: "getNumCoefficients argv (ncoeffs0 E) = Some (ncoeffs, errors)"
    using getNumCoefficients_Some [OF assms(1)] by blast
  have l: "load_response P rb (xi0 E) (yi0 E) = Some (0, [], [])"
    using assms(5) by (rule load_response_no_newline)
  have o: "is_open (ifstream_open (lookup fs (argv ! ARG_SPECTRUM @ ''.hdr'')))"
    using assms(2) by (simp add: ifstream_open_def)
  have a: "\<not> (length argv \<noteq> REQUIRED_NUM_ARGS_MODE1 \<and> length argv \<noteq> REQUIRED_NUM_ARGS_MODE2)"
    using assms(1) by (auto simp: arg_defs)
  show ?thesis
    using a by (simp add: main_def n o assms(3,4) l fit_response_def Let_def)
qed

lemma empty_response_files:
  "lookup (store example_fs ''resp'' []) ''spec.hdr'' = Some example_hdr"
  "lookup (store example_fs ''resp'' []) ''resp'' = Some []"
  by (simp_all add: lookup_store example_inodes example_files)

text \<open>
  C9. \<^verbatim>\<open>xVec[0]\<close> and \<^verbatim>\<open>xVec[xVec.size () - 1]\<close> are evaluated before the test
  \<^verbatim>\<open>n <= ncoeffs\<close>: on every run that gets as far as a response file which opens and holds
  no newline, the loader returns with no sample and the run ends in the undefined
  behaviour of indexing the empty vector, not in the error of the guard.
\<close>

theorem empty_response_index_unguarded:
  assumes "length argv = 4 \<or> length argv = 5"
    and "lookup fs (argv ! ARG_SPECTRUM @ ''.hdr'') \<noteq> None"
    and "read_header P (file_bytes fs (argv ! ARG_SPECTRUM @ ''.hdr''))
           (ifstream_open (lookup fs (argv ! ARG_SPECTRUM @ ''.hdr''))) (ReturnValue0 E) =
         Returns (wstart, wstop, delw, numPts, header)"
    and "lookup fs (argv ! ARG_RESPONSE) = Some rb" "newline \<notin> set rb"
  shows "load_response P rb (xi0 E) (yi0 E) = Some (0, [], []) \<and>
         status (main P G E argv fs) = Undefined"
  using main_zero_samples [OF assms, of G] load_response_no_newline [OF assms(5), of P "xi0 E" "yi0 E"]
  by simp

lemma example_header_any:
  "\<exists>wstart wstop delw numPts.
     read_header P example_hdr (ifstream_open (Some example_hdr)) rv =
       Returns (wstart, wstop, delw, numPts,
                \<lparr>is_open = True, gpos = 52, eofbit = False, failbit = False\<rparr>)"
  by (simp add: read_header_def getXGremlinHeaderField_def header_scan.simps getline_def seekg_def
      ios_beg_def ifstream_open_def extract_word_def substr_def example_hdr_def terminated_def
      arg_defs char_defs)

theorem empty_response_index_unguarded_witness:
  "load_response int_ieee [] (xi0 plain_env) (yi0 plain_env) = Some (0, [], []) \<and>
   status (main int_ieee const_gsl plain_env example_argv (store example_fs ''resp'' [])) = Undefined"
proof -
  let ?fs = "store example_fs ''resp'' []"
  have a: "length example_argv = 4 \<or> length example_argv = 5"
    by (simp add: example_argv_def)
  have h: "lookup ?fs (example_argv ! ARG_SPECTRUM @ ''.hdr'') \<noteq> None"
    by (simp add: example_paths empty_response_files)
  have r: "read_header int_ieee (file_bytes ?fs (example_argv ! ARG_SPECTRUM @ ''.hdr''))
             (ifstream_open (lookup ?fs (example_argv ! ARG_SPECTRUM @ ''.hdr''))) (ReturnValue0 plain_env) =
           Returns (100, 102, 1, 3, \<lparr>is_open = True, gpos = 52, eofbit = False, failbit = False\<rparr>)"
    using example_read_header by (simp add: example_paths empty_response_files file_bytes_def plain_env_def)
  have f: "lookup ?fs (example_argv ! ARG_RESPONSE) = Some []"
    by (simp add: example_paths empty_response_files)
  have e: "newline \<notin> set []"
    by simp
  from empty_response_index_unguarded [OF a h r f e] show ?thesis .
qed

text \<open>
  C7, at a failing input. With a valid header and an empty response file, four arguments
  and so the default 200 coefficients, the loader returns \<open>n = 0\<close>, which is at most the
  number of coefficients, yet the run does not end with the error of the guard and status
  1: it indexes the empty \<^verbatim>\<open>xVec\<close> at line 239 first.
\<close>

theorem insufficient_samples_guard_not_reached:
  "load_response P [] (xi0 E) (yi0 E) = Some (0, [], []) \<and> (0 :: 64 word) \<le> DEFAULT_NUM_COEFFS \<and>
   status (main P G E [''ftsintensity'', ''spec'', ''resp'', ''out''] (store example_fs ''resp'' [])) =
     Undefined"
proof -
  let ?fs = "store example_fs ''resp'' []" and ?argv = "[''ftsintensity'', ''spec'', ''resp'', ''out'']"
  have p: "?argv ! ARG_SPECTRUM @ ''.hdr'' = ''spec.hdr''" "?argv ! ARG_RESPONSE = ''resp''"
    by (simp_all add: arg_defs)
  obtain wstart wstop delw numPts where
    "read_header P example_hdr (ifstream_open (Some example_hdr)) (ReturnValue0 E) =
       Returns (wstart, wstop, delw, numPts, \<lparr>is_open = True, gpos = 52, eofbit = False, failbit = False\<rparr>)"
    using example_header_any [of P "ReturnValue0 E"] by blast
  then have r: "read_header P (file_bytes ?fs (?argv ! ARG_SPECTRUM @ ''.hdr''))
             (ifstream_open (lookup ?fs (?argv ! ARG_SPECTRUM @ ''.hdr''))) (ReturnValue0 E) =
           Returns (wstart, wstop, delw, numPts, \<lparr>is_open = True, gpos = 52, eofbit = False, failbit = False\<rparr>)"
    by (simp add: p empty_response_files file_bytes_def)
  have "status (main P G E ?argv ?fs) = Undefined"
    by (rule main_zero_samples [OF _ _ r, of "[]"]) (simp_all add: p empty_response_files)
  then show ?thesis
    by (simp add: load_response_no_newline [of "[]"] DEFAULT_NUM_COEFFS_def)
qed

text \<open>
  C1, at a failing input. With \<^verbatim>\<open>3\<close> as fourth argument \<^verbatim>\<open>getNumCoefficients\<close> prints its
  error and returns 1 to \<^verbatim>\<open>main\<close>, which takes it as the number of coefficients and goes
  on: where no file exists the next thing the run reports is that it could not open the
  header file.
\<close>

theorem too_few_coefficients_run_continues:
  "getNumCoefficients [''ftsintensity'', ''spec'', ''resp'', ''out'', ''3''] n0 =
     Some (1, [''ERROR: The spline fit must contain at least 4 coefficients.'']) \<and>
   getNumCoefficients [''ftsintensity'', ''spec'', ''resp'', ''out'', ''abc''] n0 =
     Some (1, [''ERROR: Argument 4 must be a number.'']) \<and>
   main P G E [''ftsintensity'', ''spec'', ''resp'', ''out'', ''3'']
       \<lparr>inode = ino, data = \<lambda>i. None\<rparr> =
     \<lparr>status = Exit 1,
      stdout = [''ERROR: The spline fit must contain at least 4 coefficients.'',
                ''ERROR: Unable to openspec.hdr''],
      files = \<lparr>inode = ino, data = \<lambda>i. None\<rparr>,
      calibrated = None\<rparr>"
proof -
  have n: "\<And>n0. getNumCoefficients [''ftsintensity'', ''spec'', ''resp'', ''out'', ''3''] n0 =
     Some (1, [''ERROR: The spline fit must contain at least 4 coefficients.''])"
    by (simp add: getNumCoefficients_def extract_size_t_def digits_value_def arg_defs char_defs)
  have m: "getNumCoefficients [''ftsintensity'', ''spec'', ''resp'', ''out'', ''abc''] n0 =
     Some (1, [''ERROR: Argument 4 must be a number.''])"
    by (simp add: getNumCoefficients_def arg_defs char_defs)
  show ?thesis
    by (simp add: n m main_def ifstream_open_def lookup_def arg_defs)
qed

subsection \<open>The output header\<close>

text \<open>
  Where the output header is a file other than the input header, the calibrated spectrum
  is not written onto the input header and the output header can be opened, a run that
  ends with status 0 leaves in the output header the bytes of the input header.
\<close>

lemma output_header_copied:
  assumes "status (main P G E argv fs) = Exit 0"
    and "inode fs (argv ! ARG_OUTPUT @ ''.hdr'') \<noteq> inode fs (argv ! ARG_SPECTRUM @ ''.hdr'')"
    and "inode fs (argv ! ARG_OUTPUT @ ''.dat'') \<noteq> inode fs (argv ! ARG_SPECTRUM @ ''.hdr'')"
    and "can_write E (argv ! ARG_OUTPUT @ ''.hdr'')"
  shows "lookup fs (argv ! ARG_SPECTRUM @ ''.hdr'') \<noteq> None \<and>
         lookup (files (main P G E argv fs)) (argv ! ARG_OUTPUT @ ''.hdr'') =
           lookup fs (argv ! ARG_SPECTRUM @ ''.hdr'')"
proof -
  let ?SD = "argv ! ARG_SPECTRUM @ ''.dat''" and ?SH = "argv ! ARG_SPECTRUM @ ''.hdr''"
  let ?CD = "argv ! ARG_OUTPUT @ ''.dat''" and ?CH = "argv ! ARG_OUTPUT @ ''.hdr''"
  from main_Exit_0 [OF assms(1)]
  obtain ncoeffs errors wstart wstop delw numPts header rb n xVec yVec m where
    a: "length argv = 4 \<or> length argv = 5"
    and r: "getNumCoefficients argv (ncoeffs0 E) = Some (ncoeffs, errors)"
      "lookup fs ?SH \<noteq> None"
      "read_header P (file_bytes fs ?SH) (ifstream_open (lookup fs ?SH)) (ReturnValue0 E) =
       Returns (wstart, wstop, delw, numPts, header)"
      "lookup fs (argv ! ARG_RESPONSE) = Some rb"
      "load_response P rb (xi0 E) (yi0 E) = Some (n, xVec, yVec)" "xVec \<noteq> []" "\<not> n \<le> ncoeffs"
      "gsl_fit G ncoeffs (ncoeffs - 2) n xVec yVec (hd xVec) (last xVec) = Some m"
      "lookup fs ?SD \<noteq> None"
      "can_write E ?CD"
    by blast
  note m = main_success [OF a r refl]
  from r(2) obtain hb where hb: "lookup fs ?SH = Some hb"
    by auto
  have "lookup (files (main P G E argv fs)) ?CH = Some hb"
    using assms(2,3,4) hb by (simp add: m lookup_store file_bytes_def)
  with hb show ?thesis
    by simp
qed

text \<open>
  C8, at a failing input. The run \<^verbatim>\<open>ftsintensity spec resp ./spec 4\<close> writes its output
  header onto the input header: opening \<^verbatim>\<open>calHeader\<close> empties the file before \<^verbatim>\<open>header\<close>
  is rewound and read, the first \<^verbatim>\<open>get\<close> meets the end of the file and nothing is copied.
  The run ends with status 0 and the header, which held the four fields, is left empty:
  not the copy of the input header that line 331 announces.
\<close>

theorem output_header_onto_input_header:
  "status (main int_ieee const_gsl plain_env alias_argv example_fs) = Exit 0 \<and>
   lookup example_fs (alias_argv ! ARG_SPECTRUM @ ''.hdr'') = Some example_hdr \<and>
   example_hdr \<noteq> [] \<and>
   lookup (files (main int_ieee const_gsl plain_env alias_argv example_fs))
     (alias_argv ! ARG_OUTPUT @ ''.hdr'') = Some []"
proof -
  have "example_hdr \<noteq> []"
    by (simp add: example_hdr_def terminated_def)
  then show ?thesis
    by (simp add: alias_main alias_paths example_files lookup_store example_inodes)
qed

end
